theory Spec2Isabelle
  imports Complex_Main
begin

section \<open>JavaScript values\<close>

text \<open>
  Settings are JSON documents read at run time, so every value the class reads is an
  untyped JavaScript value whatever its TypeScript annotation says. Numbers are IEEE
  doubles in the source; here a finite number is kept as the exact rational it denotes
  (every double is one), with the three non-finite values beside it. Rounding and the
  sign of zero are not modelled: nothing below depends on them. Strings are sequences
  of code units below 256.
\<close>

datatype jsnum = Fin rat | PosInf | NegInf | NaN

datatype jsval =
    JUndefined
  | JNull
  | JBool bool
  | JNum jsnum
  | JStr string
  | JArr "jsval list"
  | JObj "(string \<times> jsval) list"

datatype jstype = TUndefined | TObject | TBoolean | TNumber | TString

datatype jserror = TypeError | Error string

fun typeof :: "jsval \<Rightarrow> jstype" where
  "typeof JUndefined = TUndefined"
| "typeof JNull = TObject"
| "typeof (JBool b) = TBoolean"
| "typeof (JNum n) = TNumber"
| "typeof (JStr s) = TString"
| "typeof (JArr xs) = TObject"
| "typeof (JObj kvs) = TObject"

fun isArray :: "jsval \<Rightarrow> bool" where
  "isArray (JArr xs) = True"
| "isArray v = False"

text \<open>Truthiness, as \<open>if (v)\<close>, \<open>v ? a : b\<close> and \<open>v || d\<close> read it.\<close>

fun truthy :: "jsval \<Rightarrow> bool" where
  "truthy JUndefined = False"
| "truthy JNull = False"
| "truthy (JBool b) = b"
| "truthy (JNum (Fin r)) = (r \<noteq> 0)"
| "truthy (JNum NaN) = False"
| "truthy (JNum n) = True"
| "truthy (JStr s) = (s \<noteq> [])"
| "truthy (JArr xs) = True"
| "truthy (JObj kvs) = True"

text \<open>The operator \<open>a || b\<close>.\<close>

definition logicalOr :: "jsval \<Rightarrow> jsval \<Rightarrow> jsval" where
  "logicalOr a b = (if truthy a then a else b)"

text \<open>
  Reading a property \<open>v.k\<close>. On \<open>null\<close> and \<open>undefined\<close> it throws a TypeError; on
  an object it is the own property or \<open>undefined\<close>. The class reads only the names
  \<open>pattern\<close>, \<open>name\<close>, \<open>description\<close>, \<open>cwd\<close>, \<open>env\<close>, \<open>dependsOn\<close>,
  \<open>parallelizationLimit\<close>, \<open>testGrouping\<close>, \<open>catch2\<close>, \<open>gtest\<close>, \<open>doctest\<close>,
  \<open>helpRegex\<close>, \<open>prependTestRunningArgs\<close>, \<open>prependTestListingArgs\<close>,
  \<open>ignoreTestEnumerationStdErr\<close>, \<open>request\<close> and \<open>type\<close>; none of them is a
  property of an array, a string, a number or a boolean.
\<close>

fun get_prop :: "jsval \<Rightarrow> string \<Rightarrow> jserror + jsval" where
  "get_prop JUndefined k = Inl TypeError"
| "get_prop JNull k = Inl TypeError"
| "get_prop (JObj kvs) k = Inr (case map_of kvs k of None \<Rightarrow> JUndefined | Some v \<Rightarrow> v)"
| "get_prop v k = Inr JUndefined"

subsection \<open>Conversion of strings to numbers\<close>

text \<open>
  \<open>Number(s)\<close> on a string follows the StringNumericLiteral grammar of ECMAScript:
  white space is trimmed on both sides, the empty string is 0, then either a binary,
  octal or hexadecimal integer literal or a signed decimal literal (\<open>Infinity\<close>
  included) must fill the whole string; anything else is NaN.
\<close>

definition isStrWhiteSpaceChar :: "char \<Rightarrow> bool" where
  "isStrWhiteSpaceChar c \<longleftrightarrow>
     (let n = (of_char c :: nat) in n = 9 \<or> n = 10 \<or> n = 11 \<or> n = 12 \<or> n = 13 \<or> n = 32 \<or> n = 160)"

definition trimString :: "string \<Rightarrow> string" where
  "trimString s = rev (dropWhile isStrWhiteSpaceChar (rev (dropWhile isStrWhiteSpaceChar s)))"

definition digitOf :: "char \<Rightarrow> nat option" where
  "digitOf c =
     (let n = (of_char c :: nat) in
      if 48 \<le> n \<and> n \<le> 57 then Some (n - 48)
      else if 97 \<le> n \<and> n \<le> 102 then Some (n - 87)
      else if 65 \<le> n \<and> n \<le> 70 then Some (n - 55)
      else None)"

definition isDigitIn :: "nat \<Rightarrow> char \<Rightarrow> bool" where
  "isDigitIn b c = (case digitOf c of None \<Rightarrow> False | Some d \<Rightarrow> d < b)"

definition digitsValue :: "nat \<Rightarrow> string \<Rightarrow> nat" where
  "digitsValue b s = foldl (\<lambda>acc c. acc * b + (case digitOf c of None \<Rightarrow> 0 | Some d \<Rightarrow> d)) 0 s"

definition allDigitsIn :: "nat \<Rightarrow> string \<Rightarrow> bool" where
  "allDigitsIn b s \<longleftrightarrow> s \<noteq> [] \<and> list_all (isDigitIn b) s"

definition scale10 :: "rat \<Rightarrow> int \<Rightarrow> rat" where
  "scale10 m e = (if 0 \<le> e then m * 10 ^ nat e else m / 10 ^ nat (- e))"

definition parseExponentPart :: "string \<Rightarrow> int option" where
  "parseExponentPart s =
     (case s of
        [] \<Rightarrow> None
      | c # r \<Rightarrow>
          if c = CHR ''+'' then (if allDigitsIn 10 r then Some (int (digitsValue 10 r)) else None)
          else if c = CHR ''-'' then (if allDigitsIn 10 r then Some (- int (digitsValue 10 r)) else None)
          else (if allDigitsIn 10 s then Some (int (digitsValue 10 s)) else None))"

definition parseUnsignedDecimal :: "string \<Rightarrow> jsnum option" where
  "parseUnsignedDecimal s =
     (if s = ''Infinity'' then Some PosInf
      else
        let ip = takeWhile (isDigitIn 10) s;
            r1 = dropWhile (isDigitIn 10) s;
            fp = (case r1 of [] \<Rightarrow> [] | c # r \<Rightarrow> if c = CHR ''.'' then takeWhile (isDigitIn 10) r else []);
            r2 = (case r1 of [] \<Rightarrow> [] | c # r \<Rightarrow> if c = CHR ''.'' then dropWhile (isDigitIn 10) r else r1);
            mant = (of_nat (digitsValue 10 (ip @ fp)) :: rat) / 10 ^ length fp
        in if ip = [] \<and> fp = [] then None
           else (case r2 of
                   [] \<Rightarrow> Some (Fin mant)
                 | c # r \<Rightarrow>
                     if c = CHR ''e'' \<or> c = CHR ''E''
                     then (case parseExponentPart r of None \<Rightarrow> None | Some e \<Rightarrow> Some (Fin (scale10 mant e)))
                     else None))"

fun negate :: "jsnum \<Rightarrow> jsnum" where
  "negate (Fin r) = Fin (- r)"
| "negate PosInf = NegInf"
| "negate NegInf = PosInf"
| "negate NaN = NaN"

definition parseDecimal :: "string \<Rightarrow> jsnum option" where
  "parseDecimal s =
     (case s of
        [] \<Rightarrow> None
      | c # r \<Rightarrow>
          if c = CHR ''+'' then parseUnsignedDecimal r
          else if c = CHR ''-'' then map_option negate (parseUnsignedDecimal r)
          else parseUnsignedDecimal s)"

definition parseNonDecimal :: "string \<Rightarrow> jsnum option" where
  "parseNonDecimal s =
     (case s of
        z # p # ds \<Rightarrow>
          if z \<noteq> CHR ''0'' then None
          else if p = CHR ''x'' \<or> p = CHR ''X''
            then (if allDigitsIn 16 ds then Some (Fin (of_nat (digitsValue 16 ds))) else None)
          else if p = CHR ''o'' \<or> p = CHR ''O''
            then (if allDigitsIn 8 ds then Some (Fin (of_nat (digitsValue 8 ds))) else None)
          else if p = CHR ''b'' \<or> p = CHR ''B''
            then (if allDigitsIn 2 ds then Some (Fin (of_nat (digitsValue 2 ds))) else None)
          else None
      | _ \<Rightarrow> None)"

definition StringToNumber :: "string \<Rightarrow> jsnum" where
  "StringToNumber s =
     (let t = trimString s in
      if t = [] then Fin 0
      else (case parseNonDecimal t of
              Some n \<Rightarrow> n
            | None \<Rightarrow> (case parseDecimal t of Some n \<Rightarrow> n | None \<Rightarrow> NaN)))"

subsection \<open>Conversion of values to strings and numbers\<close>

text \<open>
  \<open>ToString\<close> and \<open>ToNumber\<close> of ECMAScript on the values a JSON document holds. An
  array converts through \<open>join(',')\<close>, where \<open>null\<close> and \<open>undefined\<close> elements are
  empty; a plain object is \<open>[object Object]\<close>. The decimal rendering of a number
  (Number::toString) depends on the double format and is a parameter \<open>n2s\<close>.
\<close>

fun joinComma :: "string list \<Rightarrow> string" where
  "joinComma [] = []"
| "joinComma [s] = s"
| "joinComma (s # t # ss) = s @ '','' @ joinComma (t # ss)"

fun ToString :: "(jsnum \<Rightarrow> string) \<Rightarrow> jsval \<Rightarrow> string" where
  "ToString n2s JUndefined = ''undefined''"
| "ToString n2s JNull = ''null''"
| "ToString n2s (JBool b) = (if b then ''true'' else ''false'')"
| "ToString n2s (JNum n) = n2s n"
| "ToString n2s (JStr s) = s"
| "ToString n2s (JArr xs) =
     joinComma (map (\<lambda>x. if x = JUndefined \<or> x = JNull then [] else ToString n2s x) xs)"
| "ToString n2s (JObj kvs) = ''[object Object]''"

fun ToNumber :: "(jsnum \<Rightarrow> string) \<Rightarrow> jsval \<Rightarrow> jsnum" where
  "ToNumber n2s JUndefined = NaN"
| "ToNumber n2s JNull = Fin 0"
| "ToNumber n2s (JBool b) = (if b then Fin 1 else Fin 0)"
| "ToNumber n2s (JNum n) = n"
| "ToNumber n2s (JStr s) = StringToNumber s"
| "ToNumber n2s (JArr xs) = StringToNumber (ToString n2s (JArr xs))"
| "ToNumber n2s (JObj kvs) = StringToNumber (ToString n2s (JObj kvs))"



section \<open>Setting names and the migration table\<close>

datatype MigratableConfig =
    test_executables
  | test_workingDirectory
  | test_randomGeneratorSeed
  | test_runtimeLimit
  | test_parallelExecutionLimit
  | discovery_gracePeriodForMissing
  | discovery_retireDebounceLimit
  | discovery_runtimeLimit
  | discovery_testListCaching
  | debug_configTemplate
  | debug_breakOnFailure
  | debug_noThrow
  | log_logpanel
  | log_logfile
  | log_logSentry
  | log_userId
  | gtest_treatGmockWarningAs
  | gtest_gmockVerbose

datatype Config = test_executable | Migratable MigratableConfig

datatype OldConfig =
    executables
  | defaultCwd
  | defaultRngSeed
  | defaultWatchTimeoutSec
  | retireDebounceTimeMilisec
  | defaultRunningTimeoutSec
  | defaultExecParsingTimeoutSec
  | workerMaxNumber
  | debugConfigTemplate
  | debugBreakOnFailure
  | defaultNoThrow
  | logpanel
  | logfile
  | logSentry
  | userId
  | enableTestListCaching
  | googletest_treatGmockWarningAs
  | googletest_gmockVerbose

fun MigrationV1V2NamePairs :: "MigratableConfig \<Rightarrow> OldConfig" where
  "MigrationV1V2NamePairs test_executables = executables"
| "MigrationV1V2NamePairs test_workingDirectory = defaultCwd"
| "MigrationV1V2NamePairs test_randomGeneratorSeed = defaultRngSeed"
| "MigrationV1V2NamePairs test_runtimeLimit = defaultRunningTimeoutSec"
| "MigrationV1V2NamePairs test_parallelExecutionLimit = workerMaxNumber"
| "MigrationV1V2NamePairs discovery_gracePeriodForMissing = defaultWatchTimeoutSec"
| "MigrationV1V2NamePairs discovery_retireDebounceLimit = retireDebounceTimeMilisec"
| "MigrationV1V2NamePairs discovery_runtimeLimit = defaultExecParsingTimeoutSec"
| "MigrationV1V2NamePairs discovery_testListCaching = enableTestListCaching"
| "MigrationV1V2NamePairs debug_configTemplate = debugConfigTemplate"
| "MigrationV1V2NamePairs debug_breakOnFailure = debugBreakOnFailure"
| "MigrationV1V2NamePairs debug_noThrow = defaultNoThrow"
| "MigrationV1V2NamePairs log_logpanel = logpanel"
| "MigrationV1V2NamePairs log_logfile = logfile"
| "MigrationV1V2NamePairs log_logSentry = logSentry"
| "MigrationV1V2NamePairs log_userId = userId"
| "MigrationV1V2NamePairs gtest_treatGmockWarningAs = googletest_treatGmockWarningAs"
| "MigrationV1V2NamePairs gtest_gmockVerbose = googletest_gmockVerbose"

section \<open>The scoped settings store\<close>

text \<open>
  Modelled from the spec: the editor's settings store (\<open>vscode.WorkspaceConfiguration\<close>)
  is not part of the repository. The spec describes it as a key-value store with three
  override scopes in which \<open>inspect\<close> gives the value of every scope, \<open>get\<close> the
  effective value (the most specific scope that is not undefined wins, then the default
  the extension declares), and \<open>update\<close> writes one scope asynchronously; writing
  \<open>undefined\<close> clears the scope.
\<close>

datatype ConfigurationTarget = Global | Workspace | WorkspaceFolder

record inspection =
  defaultValue :: jsval
  globalValue :: jsval
  workspaceValue :: jsval
  workspaceFolderValue :: jsval

type_synonym 'k WorkspaceConfiguration = "'k \<Rightarrow> inspection option"

definition cfg_inspect :: "'k WorkspaceConfiguration \<Rightarrow> 'k \<Rightarrow> inspection option" where
  "cfg_inspect c k = c k"

definition effectiveValue :: "inspection \<Rightarrow> jsval" where
  "effectiveValue i =
     (if workspaceFolderValue i \<noteq> JUndefined then workspaceFolderValue i
      else if workspaceValue i \<noteq> JUndefined then workspaceValue i
      else if globalValue i \<noteq> JUndefined then globalValue i
      else defaultValue i)"

definition cfg_get :: "'k WorkspaceConfiguration \<Rightarrow> 'k \<Rightarrow> jsval" where
  "cfg_get c k = (case c k of None \<Rightarrow> JUndefined | Some i \<Rightarrow> effectiveValue i)"

definition unsetInspection :: inspection where
  "unsetInspection =
     \<lparr>defaultValue = JUndefined, globalValue = JUndefined,
      workspaceValue = JUndefined, workspaceFolderValue = JUndefined\<rparr>"

fun writeScope :: "ConfigurationTarget \<Rightarrow> jsval \<Rightarrow> inspection \<Rightarrow> inspection" where
  "writeScope Global v i = i\<lparr>globalValue := v\<rparr>"
| "writeScope Workspace v i = i\<lparr>workspaceValue := v\<rparr>"
| "writeScope WorkspaceFolder v i = i\<lparr>workspaceFolderValue := v\<rparr>"

definition cfg_update ::
  "'k WorkspaceConfiguration \<Rightarrow> 'k \<Rightarrow> jsval \<Rightarrow> ConfigurationTarget \<Rightarrow> 'k WorkspaceConfiguration" where
  "cfg_update c k v t =
     c(k \<mapsto> writeScope t v (case c k of None \<Rightarrow> unsetInspection | Some i \<Rightarrow> i))"

text \<open>
  An \<open>update\<close> returns a promise: the write is issued at the call and reaches the store
  later. The state therefore holds the two stores the class reads (\<open>_old\<close>, section
  \<open>catch2TestExplorer\<close>, and \<open>_new\<close>, section \<open>copper\<close>), the writes issued and not
  yet applied, in the order of issue, and what was logged. With each pending write
  goes whether the call attached a rejection handler
  (\<open>.then(undefined, e => this._log.exceptionS(e))\<close>). A log entry keeps the level
  and the message of the call; the values logged with it are left out.
\<close>

datatype store_write =
    OldWrite OldConfig jsval ConfigurationTarget
  | NewWrite Config jsval ConfigurationTarget

datatype log_level = LInfo | LInfoS | LDebug | LWarn | LErrorS | LExceptionS

type_synonym log_entry = "log_level \<times> string"

record state =
  cfg_old :: "OldConfig WorkspaceConfiguration"
  cfg_new :: "Config WorkspaceConfiguration"
  pending :: "(store_write \<times> bool) list"
  logged :: "log_entry list"

text \<open>
  What the host provides besides the stores: which writes the settings backend rejects,
  Number::toString, the \<open>configurations\<close> of the \<open>launch\<close> section, which extensions
  are installed, \<open>process.platform\<close> and the workspace folder's path.
\<close>

record host =
  rejects :: "store_write \<Rightarrow> bool"
  numberToString :: "jsnum \<Rightarrow> string"
  launchConfigurations :: jsval
  getExtension :: "string \<Rightarrow> bool"
  platform :: string
  fsPath :: string

definition writeLog :: "log_level \<Rightarrow> string \<Rightarrow> state \<Rightarrow> state" where
  "writeLog l m s = s\<lparr>logged := logged s @ [(l, m)]\<rparr>"

definition issue :: "store_write \<Rightarrow> bool \<Rightarrow> state \<Rightarrow> state" where
  "issue w handled s = s\<lparr>pending := pending s @ [(w, handled)]\<rparr>"

fun applyWrite :: "host \<Rightarrow> state \<Rightarrow> store_write \<times> bool \<Rightarrow> state" where
  "applyWrite h s (w, handled) =
     (if rejects h w then (if handled then writeLog LExceptionS ''update rejected'' s else s)
      else (case w of
              OldWrite k v t \<Rightarrow> s\<lparr>cfg_old := cfg_update (cfg_old s) k v t\<rparr>
            | NewWrite k v t \<Rightarrow> s\<lparr>cfg_new := cfg_update (cfg_new s) k v t\<rparr>))"

text \<open>All pending writes reach the store, in the order of issue.\<close>

definition settle :: "host \<Rightarrow> state \<Rightarrow> state" where
  "settle h s = foldl (applyWrite h) (s\<lparr>pending := []\<rparr>) (pending s)"

text \<open>
  \<open>await update(...)\<close>: the caller resumes when this write has been answered; the
  writes issued before it have been answered by then.
\<close>

definition awaitUpdate :: "host \<Rightarrow> store_write \<Rightarrow> bool \<Rightarrow> state \<Rightarrow> state" where
  "awaitUpdate h w handled s = settle h (issue w handled s)"

section \<open>Resolution with migration\<close>

definition isDefinedConfig :: "inspection option \<Rightarrow> bool" where
  "isDefinedConfig config =
     (case config of
        None \<Rightarrow> False
      | Some c \<Rightarrow>
          globalValue c \<noteq> JUndefined \<or> workspaceValue c \<noteq> JUndefined
          \<or> workspaceFolderValue c \<noteq> JUndefined)"

definition getNewOrOldAndMigrate :: "MigratableConfig \<Rightarrow> state \<Rightarrow> jsval \<times> state" where
  "getNewOrOldAndMigrate newName s =
     (let oldName = MigrationV1V2NamePairs newName;
          oldVals = cfg_inspect (cfg_old s) oldName
      in case oldVals of
           None \<Rightarrow> (cfg_get (cfg_new s) (Migratable newName), s)
         | Some ov \<Rightarrow>
             if isDefinedConfig oldVals then
               let s1 = issue (NewWrite (Migratable newName) (globalValue ov) Global) True s;
                   s2 = issue (NewWrite (Migratable newName) (workspaceValue ov) Workspace) True s1;
                   s3 = issue (NewWrite (Migratable newName) (workspaceFolderValue ov) WorkspaceFolder) True s2;
                   oldVal = cfg_get (cfg_old s3) oldName;
                   s4 = issue (OldWrite oldName JUndefined Global) True s3;
                   s5 = issue (OldWrite oldName JUndefined Workspace) True s4;
                   s6 = issue (OldWrite oldName JUndefined WorkspaceFolder) True s5
               in (oldVal, s6)
             else (cfg_get (cfg_new s) (Migratable newName), s))"

definition getNewOrOldOrDefAndMigrate :: "MigratableConfig \<Rightarrow> jsval \<Rightarrow> state \<Rightarrow> jsval \<times> state" where
  "getNewOrOldOrDefAndMigrate newName dflt s =
     (case getNewOrOldAndMigrate newName s of
        (val, s') \<Rightarrow> if val \<noteq> JUndefined then (val, s') else (dflt, s'))"

section \<open>Objects\<close>


function indexKey :: "nat \<Rightarrow> string" where
  "indexKey n = (if n < 10 then [char_of (48 + n)] else indexKey (n div 10) @ [char_of (48 + n mod 10)])"
  by pat_completeness auto
termination
  by (relation "measure id") auto

declare indexKey.simps [simp del]

fun ownProps :: "jsval \<Rightarrow> (string \<times> jsval) list" where
  "ownProps (JObj kvs) = kvs"
| "ownProps (JArr xs) = zip (map indexKey [0..<length xs]) xs"
| "ownProps (JStr s) = zip (map indexKey [0..<length s]) (map (\<lambda>c. JStr [c]) s)"
| "ownProps v = []"

definition objectKeys :: "jsval \<Rightarrow> string list" where
  "objectKeys v = map fst (ownProps v)"




text \<open>Sequencing of steps that may throw: the first exception ends the evaluation.\<close>

definition bindE :: "jserror + 'a \<Rightarrow> ('a \<Rightarrow> jserror + 'b) \<Rightarrow> jserror + 'b" where
  "bindE m f = (case m of Inl e \<Rightarrow> Inl e | Inr x \<Rightarrow> f x)"

section \<open>Simple accessors\<close>

definition getDefaultCwd :: "host \<Rightarrow> state \<Rightarrow> jsval \<times> state" where
  "getDefaultCwd h s = getNewOrOldOrDefAndMigrate test_workingDirectory (JStr (fsPath h)) s"

definition getRandomGeneratorSeed :: "host \<Rightarrow> state \<Rightarrow> jsval \<times> state" where
  "getRandomGeneratorSeed h s =
     (case getNewOrOldOrDefAndMigrate test_randomGeneratorSeed (JStr ''time'') s of
        (val, s') \<Rightarrow>
          if val = JStr ''time'' then (val, s')
          else if val = JStr [] then (JNull, s')
          else let num = ToNumber (numberToString h) val
               in if num \<noteq> NaN then (JNum num, s') else (JNull, s'))"

fun mathMax :: "jsnum \<Rightarrow> jsnum \<Rightarrow> jsnum" where
  "mathMax NaN y = NaN"
| "mathMax x NaN = NaN"
| "mathMax PosInf y = PosInf"
| "mathMax x PosInf = PosInf"
| "mathMax NegInf y = y"
| "mathMax x NegInf = x"
| "mathMax (Fin a) (Fin b) = Fin (max a b)"

fun numberGreater :: "jsnum \<Rightarrow> jsnum \<Rightarrow> bool" where
  "numberGreater NaN y = False"
| "numberGreater x NaN = False"
| "numberGreater NegInf y = False"
| "numberGreater x PosInf = False"
| "numberGreater PosInf y = True"
| "numberGreater x NegInf = True"
| "numberGreater (Fin a) (Fin b) = (b < a)"

definition getParallelExecutionLimit :: "host \<Rightarrow> state \<Rightarrow> jsval \<times> state" where
  "getParallelExecutionLimit h s =
     (case getNewOrOldOrDefAndMigrate test_parallelExecutionLimit (JNum (Fin 1)) s of
        (val, s') \<Rightarrow>
          let res = JNum (mathMax (Fin 1) (ToNumber (numberToString h) val))
          in if typeof res \<noteq> TNumber then (JNum (Fin 1), s')
             else (res,
                   if numberGreater (ToNumber (numberToString h) res) (Fin 1)
                   then writeLog LInfoS ''workerMaxNumber'' s' else s'))"

section \<open>The debug configuration template\<close>








section \<open>Executables\<close>

record ExecutableConfigFrameworkSpecific =
  helpRegex :: "string option"
  prependTestRunningArgs :: "string list option"
  prependTestListingArgs :: "string list option"
  ignoreTestEnumerationStdErr :: "jsval option"
  testGrouping :: "jsval option"

text \<open>
  Modelled from the spec: class \<open>ExecutableConfig\<close> is declared in a file that is not
  among the sources. The spec describes it as the normalized descriptor holding what
  the expansion computed, so it is the record of the arguments its constructor is
  called with. The arguments \<open>shared\<close> and \<open>variableToValue\<close> are handed through
  unchanged and left out.
\<close>

record ExecutableConfig =
  ec_pattern :: string
  ec_name :: "string option"
  ec_description :: "string option"
  ec_cwd :: "string option"
  ec_env :: jsval
  ec_dependsOn :: "string list"
  ec_parallelizationLimit :: jsnum
  ec_defaultCwd :: jsval
  ec_catch2 :: ExecutableConfigFrameworkSpecific
  ec_gtest :: ExecutableConfigFrameworkSpecific
  ec_doctest :: ExecutableConfigFrameworkSpecific

definition emptyFramework :: ExecutableConfigFrameworkSpecific where
  "emptyFramework =
     \<lparr>helpRegex = None, prependTestRunningArgs = None, prependTestListingArgs = None,
      ignoreTestEnumerationStdErr = None, testGrouping = None\<rparr>"

definition createExecutableConfigFromPattern :: "jsval \<Rightarrow> string \<Rightarrow> ExecutableConfig" where
  "createExecutableConfigFromPattern dCwd p =
     \<lparr>ec_pattern = p, ec_name = None, ec_description = None, ec_cwd = None,
      ec_env = JUndefined, ec_dependsOn = [], ec_parallelizationLimit = Fin 1,
      ec_defaultCwd = dCwd, ec_catch2 = emptyFramework, ec_gtest = emptyFramework,
      ec_doctest = emptyFramework\<rparr>"

text \<open>\<open>typeof v === 'string' ? v : undefined\<close>\<close>

fun stringOrUndefined :: "jsval \<Rightarrow> string option" where
  "stringOrUndefined (JStr s) = Some s"
| "stringOrUndefined v = None"

text \<open>\<open>xs.filter(v => typeof v === 'string')\<close>\<close>

fun filterStrings :: "jsval list \<Rightarrow> string list" where
  "filterStrings [] = []"
| "filterStrings (JStr s # xs) = s # filterStrings xs"
| "filterStrings (x # xs) = filterStrings xs"

text \<open>\<open>Array.isArray(v) && v.every(x => typeof x === 'string')\<close>, then the array itself.\<close>

fun stringArrayOrUndefined :: "jsval \<Rightarrow> string list option" where
  "stringArrayOrUndefined (JArr xs) =
     (if list_all (\<lambda>x. typeof x = TString) xs then Some (filterStrings xs) else None)"
| "stringArrayOrUndefined v = None"

text \<open>
  The inner function \<open>framework\<close>; its first argument is the variable \<open>testGrouping\<close>
  of the enclosing function.
\<close>

definition framework :: "jsval \<Rightarrow> jsval \<Rightarrow> jserror + ExecutableConfigFrameworkSpecific" where
  "framework outerGrouping obj =
     (if typeof obj = TObject then
        bindE (get_prop obj ''helpRegex'') (\<lambda>hr.
        bindE (get_prop obj ''prependTestRunningArgs'') (\<lambda>ra.
        bindE (get_prop obj ''prependTestListingArgs'') (\<lambda>la.
        bindE (get_prop obj ''ignoreTestEnumerationStdErr'') (\<lambda>ig.
        bindE (get_prop obj ''testGrouping'') (\<lambda>g.
          Inr \<lparr>helpRegex = stringOrUndefined hr,
               prependTestRunningArgs = stringArrayOrUndefined ra,
               prependTestListingArgs = stringArrayOrUndefined la,
               ignoreTestEnumerationStdErr = (if truthy ig then Some ig else None),
               testGrouping = (if truthy g then Some g
                               else if truthy outerGrouping then Some outerGrouping
                               else None)\<rparr>)))))
      else Inr emptyFramework)"

definition patternRequired :: string where
  "patternRequired = ''pattern property is required.''"

definition executableConfigFromObj :: "jsval \<Rightarrow> jsval \<Rightarrow> jserror + ExecutableConfig" where
  "executableConfigFromObj dCwd obj =
     bindE (get_prop obj ''name'') (\<lambda>nm.
     bindE (get_prop obj ''description'') (\<lambda>ds.
     bindE (get_prop obj ''pattern'') (\<lambda>pt.
       case pt of
         JStr pat \<Rightarrow>
           bindE (get_prop obj ''cwd'') (\<lambda>cw.
           bindE (get_prop obj ''env'') (\<lambda>en.
           bindE (get_prop obj ''dependsOn'') (\<lambda>dp.
           bindE (get_prop obj ''parallelizationLimit'') (\<lambda>pl.
           bindE (get_prop obj ''testGrouping'') (\<lambda>tg.
           bindE (get_prop obj ''catch2'') (\<lambda>c2.
           bindE (framework (if truthy tg then tg else JUndefined) c2) (\<lambda>fc.
           bindE (get_prop obj ''gtest'') (\<lambda>gt.
           bindE (framework (if truthy tg then tg else JUndefined) gt) (\<lambda>fg.
           bindE (get_prop obj ''doctest'') (\<lambda>dt.
           bindE (framework (if truthy tg then tg else JUndefined) dt) (\<lambda>fd.
             Inr \<lparr>ec_pattern = pat,
                  ec_name = stringOrUndefined nm,
                  ec_description = stringOrUndefined ds,
                  ec_cwd = stringOrUndefined cw,
                  ec_env = (if typeof en = TObject then en else JUndefined),
                  ec_dependsOn = (case dp of JArr xs \<Rightarrow> filterStrings xs | _ \<Rightarrow> []),
                  ec_parallelizationLimit = (case pl of JNum n \<Rightarrow> n | _ \<Rightarrow> Fin 1),
                  ec_defaultCwd = dCwd,
                  ec_catch2 = fc, ec_gtest = fg, ec_doctest = fd\<rparr>)))))))))))
       | _ \<Rightarrow> Inl (Error patternRequired))))"

definition createExecutableConfigFromObj ::
  "jsval \<Rightarrow> jsval \<Rightarrow> state \<Rightarrow> (jserror + ExecutableConfig) \<times> state" where
  "createExecutableConfigFromObj dCwd obj s =
     (let r = executableConfigFromObj dCwd obj
      in (r, if r = Inl (Error patternRequired)
             then writeLog LDebug ''pattern property is required'' s else s))"

text \<open>The loop \<open>for (const conf of configExecs)\<close>; an exception ends it.\<close>

fun collectExecutables ::
  "jsval \<Rightarrow> jsval list \<Rightarrow> state \<Rightarrow> (jserror + ExecutableConfig list) \<times> state" where
  "collectExecutables dCwd [] s = (Inr [], s)"
| "collectExecutables dCwd (conf # rest) s =
     (case (case conf of
              JStr p \<Rightarrow> (Inr (createExecutableConfigFromPattern dCwd p), s)
            | _ \<Rightarrow> createExecutableConfigFromObj dCwd conf s) of
        (Inl e, s') \<Rightarrow> (Inl e, s')
      | (Inr c, s') \<Rightarrow>
          (case collectExecutables dCwd rest s' of
             (Inl e, s'') \<Rightarrow> (Inl e, s'')
           | (Inr cs, s'') \<Rightarrow> (Inr (c # cs), s'')))"

subsection \<open>Migration of the legacy \<open>executables\<close> setting\<close>

text \<open>The closure \<open>update\<close> of \<open>migrate\<close>; \<open>target\<close> is the scope being migrated.\<close>

definition update :: "host \<Rightarrow> ConfigurationTarget \<Rightarrow> jsval \<Rightarrow> jsval \<Rightarrow> state \<Rightarrow> state" where
  "update h target simpleVal val s =
     (let s1 = awaitUpdate h (NewWrite test_executable simpleVal target) True s;
          s2 = awaitUpdate h (NewWrite (Migratable test_executables) val target) True s1
      in issue (OldWrite (MigrationV1V2NamePairs test_executables) JUndefined target) False s2)"

text \<open>The loop that fills \<open>newVals\<close>.\<close>

fun normalizeLegacy :: "jsval list \<Rightarrow> state \<Rightarrow> jsval list \<times> state" where
  "normalizeLegacy [] s = ([], s)"
| "normalizeLegacy (v # vs) s =
     (if typeof v = TString then
        (case normalizeLegacy vs s of (r, s') \<Rightarrow> (JObj [(''pattern'', v)] # r, s'))
      else if typeof v = TObject then
        (case normalizeLegacy vs s of (r, s') \<Rightarrow> (v # r, s'))
      else normalizeLegacy vs (writeLog LErrorS ''unhandled config case'' s))"

definition migrate ::
  "host \<Rightarrow> jsval \<Rightarrow> ConfigurationTarget \<Rightarrow> state \<Rightarrow> jserror option \<times> state" where
  "migrate h oldVal target s =
     (case oldVal of
        JUndefined \<Rightarrow> (None, s)
      | JNull \<Rightarrow> (None, update h target (JStr []) JUndefined s)
      | JStr p \<Rightarrow> (None, update h target oldVal JUndefined s)
      | JArr vs \<Rightarrow>
          (case normalizeLegacy vs s of
             (newVals, s1) \<Rightarrow>
               if length newVals = 0 then (None, update h target (JStr []) JUndefined s1)
               else if length newVals = 1 \<and> length (objectKeys (JArr newVals)) = 1 then
                 (case get_prop (newVals ! 0) ''pattern'' of
                    Inl e \<Rightarrow> (Some e, s1)
                  | Inr p \<Rightarrow>
                      if p \<noteq> JUndefined then (None, update h target p JUndefined s1)
                      else (None, update h target JUndefined (JArr newVals) s1))
               else (None, update h target JUndefined (JArr newVals) s1))
      | _ \<Rightarrow> (None, writeLog LErrorS ''unhandled config case'' s))"

definition migrateExecutables :: "host \<Rightarrow> state \<Rightarrow> jserror option \<times> state" where
  "migrateExecutables h s =
     (case cfg_inspect (cfg_old s) executables of
        None \<Rightarrow> (None, s)
      | Some oldVals \<Rightarrow>
          if isDefinedConfig (Some oldVals) then
            (case migrate h (globalValue oldVals) Global s of
               (Some e, s1) \<Rightarrow> (Some e, s1)
             | (None, s1) \<Rightarrow>
                 (case migrate h (workspaceValue oldVals) Workspace s1 of
                    (Some e, s2) \<Rightarrow> (Some e, s2)
                  | (None, s2) \<Rightarrow> migrate h (workspaceFolderValue oldVals) WorkspaceFolder s2))
          else (None, s))"

subsection \<open>Expansion\<close>

definition defaultPattern :: string where
  "defaultPattern = ''{build,Build,BUILD,out,Out,OUT}/**/*{test,Test,TEST}*''"

definition executableNotRecognised :: string where
  "executableNotRecognised =
     ''`test.executable` couldn't be recognised. It should be a string. For fine-tuning use `test.executables`.''"

definition executablesNotRecognised :: string where
  "executablesNotRecognised = ''`test.executables` couldn't be recognised''"

text \<open>
  \<open>getExecutables\<close>: the migration of the legacy setting, the default working directory,
  then the expansion of \<open>test.executables\<close> or the fallback to \<open>test.executable\<close>. The
  call \<open>this._log.setContext\<close> only decorates later log entries and is left out.
\<close>

definition getExecutables :: "host \<Rightarrow> state \<Rightarrow> (jserror + ExecutableConfig list) \<times> state" where
  "getExecutables h s =
     (case migrateExecutables h s of
        (Some e, s1) \<Rightarrow> (Inl e, s1)
      | (None, s1) \<Rightarrow>
          (case getDefaultCwd h s1 of
             (cwdVal, s2) \<Rightarrow>
               let dCwd = logicalOr cwdVal (JStr ''${absDirpath}'');
                   configExecs = cfg_get (cfg_new s2) (Migratable test_executables)
               in if configExecs = JUndefined \<or> configExecs = JArr [] then
                    (let s3 = writeLog LInfo ''`test.executables` is not defined. trying to use `test.executable`'' s2;
                         simpleConfig = cfg_get (cfg_new s3) test_executable
                     in case simpleConfig of
                          JUndefined \<Rightarrow> (Inr [createExecutableConfigFromPattern dCwd defaultPattern], s3)
                        | JStr p \<Rightarrow>
                            if length p = 0 then (Inr [], s3)
                            else (Inr [createExecutableConfigFromPattern dCwd p], s3)
                        | _ \<Rightarrow>
                            (Inl (Error executableNotRecognised),
                             writeLog LWarn ''test.executable should be an string or undefined'' s3))
                  else
                    (case configExecs of
                       JArr confs \<Rightarrow> collectExecutables dCwd confs s2
                     | _ \<Rightarrow>
                         (Inl (Error executablesNotRecognised),
                          writeLog LWarn ''test.executables should be an array or undefined'' s2))))"

section \<open>Observations and example states\<close>

text \<open>The values of a setting at the three scopes, as \<open>inspect\<close> shows them.\<close>

definition scopedValues :: "inspection option \<Rightarrow> jsval \<times> jsval \<times> jsval" where
  "scopedValues i =
     (case i of
        None \<Rightarrow> (JUndefined, JUndefined, JUndefined)
      | Some c \<Rightarrow> (globalValue c, workspaceValue c, workspaceFolderValue c))"

text \<open>The six writes one migrating resolution issues, in the order of the source.\<close>

definition migrationWrites :: "MigratableConfig \<Rightarrow> inspection \<Rightarrow> (store_write \<times> bool) list" where
  "migrationWrites k ov =
     [(NewWrite (Migratable k) (globalValue ov) Global, True),
      (NewWrite (Migratable k) (workspaceValue ov) Workspace, True),
      (NewWrite (Migratable k) (workspaceFolderValue ov) WorkspaceFolder, True),
      (OldWrite (MigrationV1V2NamePairs k) JUndefined Global, True),
      (OldWrite (MigrationV1V2NamePairs k) JUndefined Workspace, True),
      (OldWrite (MigrationV1V2NamePairs k) JUndefined WorkspaceFolder, True)]"

text \<open>
  A host that rejects no write, has no launch configuration and no debug extension, and
  a state in which no setting is set and no write is pending. The example inputs below
  hold no number inside an array, so the host's Number::toString is never consulted.
\<close>

definition exampleHost :: host where
  "exampleHost =
     \<lparr>rejects = (\<lambda>w. False), numberToString = (\<lambda>n. []), launchConfigurations = JUndefined,
      getExtension = (\<lambda>e. False), platform = ''linux'', fsPath = ''/w''\<rparr>"

definition emptyState :: state where
  "emptyState = \<lparr>cfg_old = Map.empty, cfg_new = Map.empty, pending = [], logged = []\<rparr>"

definition withOld :: "OldConfig \<Rightarrow> jsval \<Rightarrow> ConfigurationTarget \<Rightarrow> state \<Rightarrow> state" where
  "withOld k v t s = s\<lparr>cfg_old := cfg_update (cfg_old s) k v t\<rparr>"

definition withNew :: "Config \<Rightarrow> jsval \<Rightarrow> ConfigurationTarget \<Rightarrow> state \<Rightarrow> state" where
  "withNew k v t s = s\<lparr>cfg_new := cfg_update (cfg_new s) k v t\<rparr>"

text \<open>
  The value of the field \<open>k\<close> of an element of \<open>test.executables\<close>: \<open>undefined\<close>
  when the element has no such field.
\<close>

definition propOf :: "jsval \<Rightarrow> string \<Rightarrow> jsval" where
  "propOf v k = (case get_prop v k of Inl e \<Rightarrow> JUndefined | Inr x \<Rightarrow> x)"

text \<open>What one element of \<open>test.executables\<close> becomes in the loop of \<open>getExecutables\<close>.\<close>

definition elementConfig :: "jsval \<Rightarrow> jsval \<Rightarrow> ExecutableConfig \<Rightarrow> bool" where
  "elementConfig d conf c =
     (case conf of
        JStr p \<Rightarrow> c = createExecutableConfigFromPattern d p
      | _ \<Rightarrow> executableConfigFromObj d conf = Inr c)"

text \<open>
  An element of \<open>test.executables\<close> that is neither \<open>null\<close> nor \<open>undefined\<close> and has
  no \<open>null\<close> framework block: processing it reads no property of \<open>null\<close>.
\<close>

definition raisesNoTypeError :: "jsval \<Rightarrow> bool" where
  "raisesNoTypeError v \<longleftrightarrow>
     v \<noteq> JUndefined \<and> v \<noteq> JNull \<and> propOf v ''catch2'' \<noteq> JNull
     \<and> propOf v ''gtest'' \<noteq> JNull \<and> propOf v ''doctest'' \<noteq> JNull"

text \<open>
  The legacy setting \<open>executables\<close> holds, at Global scope, one object with a pattern
  and a working directory.
\<close>

definition legacySingleton :: state where
  "legacySingleton =
     withOld executables (JArr [JObj [(''pattern'', JStr ''a''), (''cwd'', JStr ''b'')]]) Global emptyState"







section \<open>Resolution and the pending writes\<close>

lemma resolve_defined:
  assumes "cfg_inspect (cfg_old s) (MigrationV1V2NamePairs k) = Some ov"
    and "isDefinedConfig (Some ov)"
  shows "getNewOrOldAndMigrate k s = (effectiveValue ov, s\<lparr>pending := pending s @ migrationWrites k ov\<rparr>)"
  using assms
  by (simp add: getNewOrOldAndMigrate_def Let_def issue_def cfg_get_def cfg_inspect_def migrationWrites_def)

lemma resolve_undefined:
  assumes "\<not> isDefinedConfig (cfg_inspect (cfg_old s) (MigrationV1V2NamePairs k))"
  shows "getNewOrOldAndMigrate k s = (cfg_get (cfg_new s) (Migratable k), s)"
  using assms
  by (cases "cfg_inspect (cfg_old s) (MigrationV1V2NamePairs k)")
     (simp_all add: getNewOrOldAndMigrate_def Let_def)

lemma resolve_stores:
  "cfg_new (snd (getNewOrOldAndMigrate k s)) = cfg_new s \<and> cfg_old (snd (getNewOrOldAndMigrate k s)) = cfg_old s"
  by (simp add: getNewOrOldAndMigrate_def Let_def issue_def split: option.splits)

lemma settle_append:
  "settle h (s\<lparr>pending := pending s @ ws\<rparr>) = foldl (applyWrite h) (settle h s) ws"
  by (simp add: settle_def)

lemma pending_applyWrite: "pending (applyWrite h s w) = pending s"
  by (cases w) (simp add: writeLog_def split: store_write.splits)

lemma pending_foldl_applyWrite: "pending (foldl (applyWrite h) s ws) = pending s"
  by (induction ws arbitrary: s) (simp_all add: pending_applyWrite)

lemma pending_settle: "pending (settle h s) = []"
  by (simp add: settle_def pending_foldl_applyWrite)

lemma scoped_after_writes:
  assumes "\<forall>v t. \<not> rejects h (NewWrite (Migratable k) v t)"
    and "\<forall>t. \<not> rejects h (OldWrite (MigrationV1V2NamePairs k) JUndefined t)"
  shows "scopedValues (cfg_inspect (cfg_new (foldl (applyWrite h) m (migrationWrites k ov))) (Migratable k))
           = (globalValue ov, workspaceValue ov, workspaceFolderValue ov)
       \<and> scopedValues (cfg_inspect (cfg_old (foldl (applyWrite h) m (migrationWrites k ov))) (MigrationV1V2NamePairs k))
           = (JUndefined, JUndefined, JUndefined)"
  using assms
  by (simp add: migrationWrites_def scopedValues_def cfg_inspect_def cfg_update_def)

lemma effectiveValue_scoped:
  assumes "scopedValues (Some i) = scopedValues (Some j)" and "isDefinedConfig (Some j)"
  shows "effectiveValue i = effectiveValue j"
  using assms by (auto simp: scopedValues_def effectiveValue_def isDefinedConfig_def)

section \<open>The expansion of the executables\<close>

lemma resolveOrDef_snd:
  "snd (getNewOrOldOrDefAndMigrate k d s) = snd (getNewOrOldAndMigrate k s)"
  by (simp add: getNewOrOldOrDefAndMigrate_def split: prod.splits)

lemma getDefaultCwd_stores:
  "cfg_new (snd (getDefaultCwd h s)) = cfg_new s \<and> cfg_old (snd (getDefaultCwd h s)) = cfg_old s"
  by (simp add: getDefaultCwd_def resolveOrDef_snd resolve_stores)

lemma cfg_new_writeLog: "cfg_new (writeLog l m s) = cfg_new s"
  by (simp add: writeLog_def)

lemma getExecutables_fallback:
  assumes "migrateExecutables h s = (None, s1)"
    and "cfg_get (cfg_new s1) (Migratable test_executables) = JUndefined
         \<or> cfg_get (cfg_new s1) (Migratable test_executables) = JArr []"
  shows "fst (getExecutables h s) =
     (case cfg_get (cfg_new s1) test_executable of
        JUndefined \<Rightarrow> Inr [createExecutableConfigFromPattern
                          (logicalOr (fst (getDefaultCwd h s1)) (JStr ''${absDirpath}'')) defaultPattern]
      | JStr p \<Rightarrow> if p = [] then Inr []
                  else Inr [createExecutableConfigFromPattern
                          (logicalOr (fst (getDefaultCwd h s1)) (JStr ''${absDirpath}'')) p]
      | _ \<Rightarrow> Inl (Error executableNotRecognised))"
proof -
  obtain c s2 where g: "getDefaultCwd h s1 = (c, s2)" by (cases "getDefaultCwd h s1")
  have n: "cfg_new s2 = cfg_new s1" using getDefaultCwd_stores [of h s1] by (simp add: g)
  show ?thesis
    using assms
    by (auto simp: getExecutables_def g n Let_def cfg_new_writeLog cfg_get_def split: jsval.splits)
qed

lemma getExecutables_array:
  assumes "migrateExecutables h s = (None, s1)"
    and "cfg_get (cfg_new s1) (Migratable test_executables) = JArr confs"
    and "confs \<noteq> []"
  shows "fst (getExecutables h s) =
     fst (collectExecutables (logicalOr (fst (getDefaultCwd h s1)) (JStr ''${absDirpath}'')) confs
            (snd (getDefaultCwd h s1)))"
proof -
  obtain c s2 where g: "getDefaultCwd h s1 = (c, s2)" by (cases "getDefaultCwd h s1")
  have n: "cfg_new s2 = cfg_new s1" using getDefaultCwd_stores [of h s1] by (simp add: g)
  show ?thesis
    using assms by (simp add: getExecutables_def g n Let_def)
qed

lemma collectExecutables_Cons_Inr:
  assumes "collectExecutables d (conf # rest) s = (Inr cfgs, s')"
  shows "\<exists>c cs s1. elementConfig d conf c \<and> collectExecutables d rest s1 = (Inr cs, s') \<and> cfgs = c # cs"
proof (cases conf)
  case (JStr p)
  with assms show ?thesis
    by (auto simp: elementConfig_def split: prod.splits sum.splits)
qed (use assms in \<open>auto simp: elementConfig_def createExecutableConfigFromObj_def Let_def
        split: prod.splits sum.splits\<close>)

lemma collectExecutables_Inr:
  "collectExecutables d confs s = (Inr cfgs, s') \<Longrightarrow> list_all2 (elementConfig d) confs cfgs"
proof (induction confs arbitrary: cfgs s s')
  case Nil
  then show ?case by simp
next
  case (Cons conf rest)
  from collectExecutables_Cons_Inr [OF Cons.prems]
  obtain c cs s1 where "elementConfig d conf c" "collectExecutables d rest s1 = (Inr cs, s')" "cfgs = c # cs"
    by blast
  with Cons.IH show ?case by simp
qed

lemma get_prop_propOf:
  "v \<noteq> JUndefined \<Longrightarrow> v \<noteq> JNull \<Longrightarrow> get_prop v k = Inr (propOf v k)"
  by (cases v) (simp_all add: propOf_def)

lemma propOf_not_object:
  "\<forall>kvs. v \<noteq> JObj kvs \<Longrightarrow> propOf v k = JUndefined"
  by (cases v) (simp_all add: propOf_def)

lemma executableConfigFromObj_null:
  "executableConfigFromObj d JNull = Inl TypeError" "executableConfigFromObj d JUndefined = Inl TypeError"
  by (simp_all add: executableConfigFromObj_def bindE_def)

lemma executableConfigFromObj_no_pattern:
  assumes "v \<noteq> JUndefined" "v \<noteq> JNull" "\<forall>p. propOf v ''pattern'' \<noteq> JStr p"
  shows "executableConfigFromObj d v = Inl (Error patternRequired)"
proof -
  have "get_prop v k = Inr (propOf v k)" for k
    using assms(1,2) by (rule get_prop_propOf)
  then show ?thesis
    using assms(3)
    by (cases "propOf v ''pattern''") (simp_all add: executableConfigFromObj_def bindE_def)
qed

lemma executableConfigFromObj_fields:
  assumes "executableConfigFromObj d v = Inr c"
  shows "propOf v ''pattern'' = JStr (ec_pattern c)
       \<and> ec_name c = stringOrUndefined (propOf v ''name'')
       \<and> ec_description c = stringOrUndefined (propOf v ''description'')
       \<and> ec_cwd c = stringOrUndefined (propOf v ''cwd'')
       \<and> ec_env c = (if typeof (propOf v ''env'') = TObject then propOf v ''env'' else JUndefined)
       \<and> ec_parallelizationLimit c =
            (case propOf v ''parallelizationLimit'' of JNum n \<Rightarrow> n | _ \<Rightarrow> Fin 1)
       \<and> ec_defaultCwd c = d"
proof -
  have nn: "v \<noteq> JUndefined" "v \<noteq> JNull"
    using assms executableConfigFromObj_null by auto
  have g: "get_prop v k = Inr (propOf v k)" for k
    using nn by (rule get_prop_propOf)
  obtain pat where pat: "propOf v ''pattern'' = JStr pat"
    using assms executableConfigFromObj_no_pattern [OF nn, of d] by (cases "propOf v ''pattern''") auto
  from assms show ?thesis
    unfolding executableConfigFromObj_def
    by (simp add: g pat bindE_def split: sum.splits) auto
qed

lemma elementConfig_fields:
  assumes "elementConfig d conf c"
  shows "(conf = JStr (ec_pattern c) \<or> propOf conf ''pattern'' = JStr (ec_pattern c))
       \<and> ec_name c = stringOrUndefined (propOf conf ''name'')
       \<and> ec_description c = stringOrUndefined (propOf conf ''description'')
       \<and> ec_cwd c = stringOrUndefined (propOf conf ''cwd'')
       \<and> ec_env c = (if typeof (propOf conf ''env'') = TObject then propOf conf ''env'' else JUndefined)
       \<and> ec_parallelizationLimit c =
            (case propOf conf ''parallelizationLimit'' of JNum n \<Rightarrow> n | _ \<Rightarrow> Fin 1)
       \<and> ec_defaultCwd c = d"
proof (cases "\<exists>p. conf = JStr p")
  case True
  then obtain p where "conf = JStr p" by blast
  with assms show ?thesis
    by (simp add: elementConfig_def createExecutableConfigFromPattern_def propOf_def)
next
  case False
  with assms have "executableConfigFromObj d conf = Inr c"
    by (cases conf) (simp_all add: elementConfig_def)
  from executableConfigFromObj_fields [OF this] show ?thesis by simp
qed

lemma getExecutables_elements:
  assumes "migrateExecutables h s = (None, s1)"
    and "cfg_get (cfg_new s1) (Migratable test_executables) = JArr confs"
    and "confs \<noteq> []"
    and "fst (getExecutables h s) = Inr cfgs"
  shows "list_all2 (elementConfig (logicalOr (fst (getDefaultCwd h s1)) (JStr ''${absDirpath}''))) confs cfgs"
proof -
  let ?d = "logicalOr (fst (getDefaultCwd h s1)) (JStr ''${absDirpath}'')"
  have "fst (collectExecutables ?d confs (snd (getDefaultCwd h s1))) = Inr cfgs"
    using getExecutables_array [OF assms(1-3)] assms(4) by simp
  then obtain s' where "collectExecutables ?d confs (snd (getDefaultCwd h s1)) = (Inr cfgs, s')"
    by (cases "collectExecutables ?d confs (snd (getDefaultCwd h s1))") simp
  then show ?thesis by (rule collectExecutables_Inr)
qed

lemma migrateExecutables_no_legacy:
  assumes "cfg_old s executables = None"
  shows "migrateExecutables h s = (None, s)"
  using assms by (simp add: migrateExecutables_def cfg_inspect_def)

lemma framework_not_null:
  assumes "obj \<noteq> JNull"
  shows "\<exists>f. framework tg obj = Inr f"
proof (cases "obj = JUndefined")
  case True
  then show ?thesis by (simp add: framework_def)
next
  case False
  with assms have "get_prop obj k = Inr (propOf obj k)" for k
    by (simp add: get_prop_propOf)
  then show ?thesis by (simp add: framework_def bindE_def)
qed

text \<open>An element that is not \<open>null\<close> and has no \<open>null\<close> framework block raises no TypeError.\<close>

lemma executableConfigFromObj_no_TypeError:
  assumes "v \<noteq> JUndefined" "v \<noteq> JNull"
    and "propOf v ''catch2'' \<noteq> JNull" "propOf v ''gtest'' \<noteq> JNull" "propOf v ''doctest'' \<noteq> JNull"
  shows "(\<exists>c. executableConfigFromObj d v = Inr c) \<or> executableConfigFromObj d v = Inl (Error patternRequired)"
proof (cases "\<exists>p. propOf v ''pattern'' = JStr p")
  case False
  then show ?thesis using executableConfigFromObj_no_pattern [OF assms(1,2)] by simp
next
  case True
  then obtain p where p: "propOf v ''pattern'' = JStr p" by blast
  have g: "get_prop v k = Inr (propOf v k)" for k
    using assms(1,2) by (rule get_prop_propOf)
  obtain f1 where f1: "framework (if truthy (propOf v ''testGrouping'') then propOf v ''testGrouping'' else JUndefined)
      (propOf v ''catch2'') = Inr f1"
    using framework_not_null [OF assms(3)] by blast
  obtain f2 where f2: "framework (if truthy (propOf v ''testGrouping'') then propOf v ''testGrouping'' else JUndefined)
      (propOf v ''gtest'') = Inr f2"
    using framework_not_null [OF assms(4)] by blast
  obtain f3 where f3: "framework (if truthy (propOf v ''testGrouping'') then propOf v ''testGrouping'' else JUndefined)
      (propOf v ''doctest'') = Inr f3"
    using framework_not_null [OF assms(5)] by blast
  show ?thesis
    by (simp add: executableConfigFromObj_def g p f1 f2 f3 bindE_def)
qed

lemma collectExecutables_Cons_step:
  "fst (collectExecutables d (conf # rest) s) =
     (case (case conf of JStr p \<Rightarrow> Inr (createExecutableConfigFromPattern d p)
                       | _ \<Rightarrow> executableConfigFromObj d conf) of
        Inl e \<Rightarrow> Inl e
      | Inr c \<Rightarrow> (case fst (collectExecutables d rest
                        (snd (case conf of JStr p \<Rightarrow> (Inr (createExecutableConfigFromPattern d p), s)
                                         | _ \<Rightarrow> createExecutableConfigFromObj d conf s))) of
                    Inl e \<Rightarrow> Inl e | Inr cs \<Rightarrow> Inr (c # cs)))"
  by (cases conf) (simp_all add: createExecutableConfigFromObj_def Let_def split: sum.splits prod.splits)

lemma collectExecutables_missing_pattern:
  assumes "\<forall>p. propOf (JObj kvs) ''pattern'' \<noteq> JStr p"
  shows "\<exists>e. fst (collectExecutables d (pre @ JObj kvs # post) s) = Inl e"
proof (induction pre arbitrary: s)
  case Nil
  have "executableConfigFromObj d (JObj kvs) = Inl (Error patternRequired)"
    using assms by (simp add: executableConfigFromObj_no_pattern)
  then show ?case by (simp add: collectExecutables_Cons_step del: collectExecutables.simps)
next
  case (Cons x pre)
  let ?s' = "snd (case x of JStr p \<Rightarrow> (Inr (createExecutableConfigFromPattern d p), s)
                          | _ \<Rightarrow> createExecutableConfigFromObj d x s)"
  from Cons.IH [of ?s'] obtain e
    where "fst (collectExecutables d (pre @ JObj kvs # post) ?s') = Inl e" by blast
  then show ?case
    by (auto simp: collectExecutables_Cons_step simp del: collectExecutables.simps split: sum.splits)
qed

lemma collectExecutables_pattern_error:
  assumes "\<forall>p. propOf (JObj kvs) ''pattern'' \<noteq> JStr p"
    and "\<forall>x\<in>set pre. raisesNoTypeError x"
  shows "fst (collectExecutables d (pre @ JObj kvs # post) s) = Inl (Error patternRequired)"
  using assms(2)
proof (induction pre arbitrary: s)
  case Nil
  have "executableConfigFromObj d (JObj kvs) = Inl (Error patternRequired)"
    using assms(1) by (simp add: executableConfigFromObj_no_pattern)
  then show ?case by (simp add: collectExecutables_Cons_step del: collectExecutables.simps)
next
  case (Cons x pre)
  then have x: "raisesNoTypeError x" and rest: "\<forall>x\<in>set pre. raisesNoTypeError x" by simp_all
  have ih: "fst (collectExecutables d (pre @ JObj kvs # post) s') = Inl (Error patternRequired)" for s'
    using Cons.IH [OF rest] .
  show ?case
  proof (cases "\<exists>p. x = JStr p")
    case True
    then show ?thesis using ih by (auto simp: collectExecutables_Cons_step simp del: collectExecutables.simps)
  next
    case False
    from x have "(\<exists>c. executableConfigFromObj d x = Inr c) \<or> executableConfigFromObj d x = Inl (Error patternRequired)"
      unfolding raisesNoTypeError_def by (intro executableConfigFromObj_no_TypeError) simp_all
    with False ih show ?thesis
      by (cases x) (auto simp: collectExecutables_Cons_step simp del: collectExecutables.simps)
  qed
qed

lemma getExecutables_not_array:
  assumes "migrateExecutables h s = (None, s1)"
    and "cfg_get (cfg_new s1) (Migratable test_executables) \<noteq> JUndefined"
    and "\<not> isArray (cfg_get (cfg_new s1) (Migratable test_executables))"
  shows "fst (getExecutables h s) = Inl (Error executablesNotRecognised)"
proof -
  obtain c s2 where g: "getDefaultCwd h s1 = (c, s2)" by (cases "getDefaultCwd h s1")
  have n: "cfg_new s2 = cfg_new s1" using getDefaultCwd_stores [of h s1] by (simp add: g)
  show ?thesis
    using assms
    by (cases "cfg_get (cfg_new s1) (Migratable test_executables)")
       (simp_all add: getExecutables_def g n Let_def)
qed

lemma getExecutables_fallback_patterns:
  assumes "migrateExecutables h s = (None, s1)"
    and "cfg_get (cfg_new s1) (Migratable test_executables) = JUndefined
         \<or> cfg_get (cfg_new s1) (Migratable test_executables) = JArr []"
    and "fst (getExecutables h s) = Inr cfgs"
  shows "\<forall>c\<in>set cfgs. ec_pattern c \<noteq> []"
  using getExecutables_fallback [OF assms(1,2)] assms(3)
  by (cases "cfg_get (cfg_new s1) test_executable")
     (auto simp: createExecutableConfigFromPattern_def defaultPattern_def split: if_splits)

subsection \<open>Evaluation on the example states\<close>

lemma example_migrate:
  "migrateExecutables exampleHost (withNew k v Global emptyState) = (None, withNew k v Global emptyState)"
  by (rule migrateExecutables_no_legacy) (simp add: withNew_def emptyState_def)

lemma example_defaultCwd:
  "logicalOr (fst (getDefaultCwd exampleHost (withNew (Migratable test_executables) v Global emptyState)))
     (JStr ''${absDirpath}'') = JStr ''/w''"
  by (simp add: getDefaultCwd_def getNewOrOldOrDefAndMigrate_def getNewOrOldAndMigrate_def
      withNew_def emptyState_def cfg_inspect_def cfg_get_def cfg_update_def exampleHost_def logicalOr_def)

lemma example_executables:
  "cfg_get (cfg_new (withNew (Migratable test_executables) (JArr confs) Global emptyState))
     (Migratable test_executables) = JArr confs"
  by (simp add: withNew_def emptyState_def cfg_get_def cfg_update_def effectiveValue_def unsetInspection_def)

lemma example_collect:
  assumes "confs \<noteq> []"
  shows "fst (getExecutables exampleHost (withNew (Migratable test_executables) (JArr confs) Global emptyState))
     = fst (collectExecutables (JStr ''/w'') confs
         (snd (getDefaultCwd exampleHost (withNew (Migratable test_executables) (JArr confs) Global emptyState))))"
  using getExecutables_array [OF example_migrate example_executables assms]
  by (simp add: example_defaultCwd)

lemmas element_eval =
  createExecutableConfigFromObj_def executableConfigFromObj_def framework_def bindE_def
  createExecutableConfigFromPattern_def emptyFramework_def patternRequired_def Let_def

lemma example_limit_eval:
  "fst (getExecutables exampleHost (withNew (Migratable test_executables)
      (JArr [JObj [(''pattern'', JStr ''a'')],
             JObj [(''pattern'', JStr ''b''), (''parallelizationLimit'', JNum (Fin 2))]]) Global emptyState))
     = Inr [createExecutableConfigFromPattern (JStr ''/w'') ''a'',
            (createExecutableConfigFromPattern (JStr ''/w'') ''b'')\<lparr>ec_parallelizationLimit := Fin 2\<rparr>]"
  by (simp add: example_collect element_eval)

lemma example_env_eval:
  "fst (getExecutables exampleHost (withNew (Migratable test_executables)
      (JArr [JObj [(''pattern'', JStr ''a''), (''env'', JNull), (''name'', JNull)],
             JObj [(''pattern'', JStr ''b''), (''env'', JArr [JStr ''x'']), (''cwd'', JNum (Fin 1))]])
      Global emptyState))
     = Inr [(createExecutableConfigFromPattern (JStr ''/w'') ''a'')\<lparr>ec_env := JNull\<rparr>,
            (createExecutableConfigFromPattern (JStr ''/w'') ''b'')\<lparr>ec_env := JArr [JStr ''x'']\<rparr>]"
  by (simp add: example_collect element_eval)

lemma example_string_eval:
  "fst (getExecutables exampleHost (withNew (Migratable test_executables)
      (JArr [JStr ''foo/*test*'']) Global emptyState))
     = Inr [createExecutableConfigFromPattern (JStr ''/w'') ''foo/*test*'']"
  by (simp add: example_collect element_eval)

section \<open>The simple accessors\<close>

lemmas number_eval =
  StringToNumber_def trimString_def isStrWhiteSpaceChar_def parseNonDecimal_def parseDecimal_def
  parseUnsignedDecimal_def parseExponentPart_def isDigitIn_def digitOf_def digitsValue_def
  allDigitsIn_def scale10_def Let_def

lemma StringToNumber_examples:
  "StringToNumber ''42'' = Fin 42" "StringToNumber ''abc'' = NaN" "StringToNumber [] = Fin 0"
  by (simp_all add: number_eval)

lemma getRandomGeneratorSeed_resolved:
  "fst (getRandomGeneratorSeed h s) =
     (let v = fst (getNewOrOldAndMigrate test_randomGeneratorSeed s);
          val = (if v \<noteq> JUndefined then v else JStr ''time'')
      in if val = JStr ''time'' then val
         else if val = JStr [] then JNull
         else if ToNumber (numberToString h) val \<noteq> NaN then JNum (ToNumber (numberToString h) val)
         else JNull)"
  by (cases "getNewOrOldAndMigrate test_randomGeneratorSeed s")
     (simp add: getRandomGeneratorSeed_def getNewOrOldOrDefAndMigrate_def Let_def)

lemma example_resolve_new:
  assumes "v \<noteq> JUndefined"
  shows "fst (getNewOrOldAndMigrate k (withNew (Migratable k) v Global emptyState)) = v"
  using assms
  by (simp add: getNewOrOldAndMigrate_def withNew_def emptyState_def cfg_inspect_def cfg_get_def
      cfg_update_def effectiveValue_def unsetInspection_def)

lemma example_resolve_unset:
  "fst (getNewOrOldAndMigrate k emptyState) = JUndefined"
  by (simp add: getNewOrOldAndMigrate_def emptyState_def cfg_inspect_def cfg_get_def)

lemma getParallelExecutionLimit_value:
  "fst (getParallelExecutionLimit h s) =
     JNum (mathMax (Fin 1) (ToNumber (numberToString h)
       (fst (getNewOrOldOrDefAndMigrate test_parallelExecutionLimit (JNum (Fin 1)) s))))"
  by (cases "getNewOrOldOrDefAndMigrate test_parallelExecutionLimit (JNum (Fin 1)) s")
     (simp add: getParallelExecutionLimit_def Let_def)

lemma example_resolveOrDef_new:
  assumes "v \<noteq> JUndefined"
  shows "fst (getNewOrOldOrDefAndMigrate k d (withNew (Migratable k) v Global emptyState)) = v"
  using example_resolve_new [OF assms, of k] assms
  by (cases "getNewOrOldAndMigrate k (withNew (Migratable k) v Global emptyState)")
     (simp add: getNewOrOldOrDefAndMigrate_def)

section \<open>The migration of the legacy executables\<close>

lemma length_objectKeys_array: "length (objectKeys (JArr xs)) = length xs"
  by (simp add: objectKeys_def)

lemma settle_issue_empty:
  assumes "pending s = []" "\<not> rejects h w"
  shows "settle h (issue w b s) =
          (case w of
             OldWrite k v t \<Rightarrow> s\<lparr>cfg_old := cfg_update (cfg_old s) k v t\<rparr>
           | NewWrite k v t \<Rightarrow> s\<lparr>cfg_new := cfg_update (cfg_new s) k v t\<rparr>)"
  using assms by (cases w) (simp_all add: settle_def issue_def)

lemma update_no_pending:
  assumes "pending s = []" "\<forall>w. \<not> rejects h w"
  shows "update h target simpleVal val s =
     s\<lparr>cfg_new := cfg_update (cfg_update (cfg_new s) test_executable simpleVal target)
                       (Migratable test_executables) val target,
        pending := [(OldWrite executables JUndefined target, False)]\<rparr>"
proof -
  let ?s1 = "s\<lparr>cfg_new := cfg_update (cfg_new s) test_executable simpleVal target\<rparr>"
  have r: "\<not> rejects h w" for w using assms(2) by simp
  have s1: "awaitUpdate h (NewWrite test_executable simpleVal target) True s = ?s1"
    using assms(1) r by (simp add: awaitUpdate_def settle_issue_empty)
  have p1: "pending ?s1 = []" using assms(1) by simp
  have s2: "awaitUpdate h (NewWrite (Migratable test_executables) val target) True ?s1
      = ?s1\<lparr>cfg_new := cfg_update (cfg_new ?s1) (Migratable test_executables) val target\<rparr>"
    using r by (simp add: awaitUpdate_def settle_issue_empty [OF p1])
  show ?thesis
    using assms(1) by (simp add: update_def s1 s2 issue_def Let_def)
qed

lemma legacySingleton_migrate:
  "migrateExecutables exampleHost legacySingleton =
     (None, legacySingleton
        \<lparr>cfg_new := cfg_update (cfg_update Map.empty test_executable (JStr ''a'') Global)
                       (Migratable test_executables) JUndefined Global,
         pending := [(OldWrite executables JUndefined Global, False)]\<rparr>)"
proof -
  have p: "pending legacySingleton = []" and r: "\<forall>w. \<not> rejects exampleHost w"
    and n: "cfg_new legacySingleton = Map.empty"
    by (simp_all add: legacySingleton_def withOld_def emptyState_def exampleHost_def)
  have i: "cfg_inspect (cfg_old legacySingleton) executables =
      Some (unsetInspection\<lparr>globalValue := JArr [JObj [(''pattern'', JStr ''a''), (''cwd'', JStr ''b'')]]\<rparr>)"
    by (simp add: legacySingleton_def withOld_def emptyState_def cfg_inspect_def cfg_update_def)
  show ?thesis
    by (simp add: migrateExecutables_def i isDefinedConfig_def migrate_def length_objectKeys_array
        update_no_pending [OF p r] n unsetInspection_def)
qed

lemma collectExecutables_stores:
  "cfg_new (snd (collectExecutables d confs s)) = cfg_new s"
proof (induction confs arbitrary: s)
  case Nil
  then show ?case by simp
next
  case (Cons conf rest)
  obtain r s' where c: "(case conf of
              JStr p \<Rightarrow> (Inr (createExecutableConfigFromPattern d p), s)
            | _ \<Rightarrow> createExecutableConfigFromObj d conf s) = (r, s')"
    by (cases "(case conf of
              JStr p \<Rightarrow> (Inr (createExecutableConfigFromPattern d p), s)
            | _ \<Rightarrow> createExecutableConfigFromObj d conf s)")
  have a: "cfg_new s' = cfg_new s"
    using c by (cases conf) (auto simp: createExecutableConfigFromObj_def Let_def cfg_new_writeLog split: if_splits)
  obtain r2 s2 where c2: "collectExecutables d rest s' = (r2, s2)"
    by (cases "collectExecutables d rest s'")
  have b: "cfg_new s2 = cfg_new s'"
    using Cons.IH [of s'] by (simp add: c2)
  show ?case
    using a b by (cases r; cases r2) (simp_all add: c c2)
qed

lemma getExecutables_stores:
  assumes "migrateExecutables h s = (None, s1)"
  shows "cfg_new (snd (getExecutables h s)) = cfg_new s1"
proof -
  obtain c s2 where g: "getDefaultCwd h s1 = (c, s2)" by (cases "getDefaultCwd h s1")
  have n: "cfg_new s2 = cfg_new s1" using getDefaultCwd_stores [of h s1] by (simp add: g)
  show ?thesis
    using assms
    by (simp add: getExecutables_def g n Let_def cfg_new_writeLog collectExecutables_stores
        split: jsval.splits)
qed

section \<open>The debug configuration template\<close>






















section \<open>The claims\<close>

subsection \<open>The legacy array\<close>

text \<open>
  Claim C1, evaluated on the code. The legacy array \<open>[{pattern: 'a', cwd: 'b'}]\<close> at
  Global scope is a singleton whose object holds more than a pattern, yet the migration
  writes the simple key \<open>test.executable = 'a'\<close> and clears \<open>test.executables\<close>:
  the test \<open>Object.keys(newVals).length === 1\<close> counts the keys of the array, not of
  the object. The working directory is lost, and the expansion yields the config of the
  bare pattern.
\<close>

theorem legacy_singleton_collapses:
  "scopedValues (cfg_inspect (cfg_new (snd (getExecutables exampleHost legacySingleton))) test_executable)
     = (JStr ''a'', JUndefined, JUndefined)
   \<and> scopedValues (cfg_inspect (cfg_new (snd (getExecutables exampleHost legacySingleton)))
        (Migratable test_executables))
     = (JUndefined, JUndefined, JUndefined)
   \<and> fst (getExecutables exampleHost legacySingleton)
     = Inr [createExecutableConfigFromPattern (JStr ''/w'') ''a'']"
proof -
  let ?s1 = "legacySingleton
        \<lparr>cfg_new := cfg_update (cfg_update Map.empty test_executable (JStr ''a'') Global)
                       (Migratable test_executables) JUndefined Global,
         pending := [(OldWrite executables JUndefined Global, False)]\<rparr>"
  note m = legacySingleton_migrate
  have n: "cfg_new (snd (getExecutables exampleHost legacySingleton)) = cfg_new ?s1"
    using m by (rule getExecutables_stores)
  have e: "cfg_get (cfg_new ?s1) (Migratable test_executables) = JUndefined"
    and x: "cfg_get (cfg_new ?s1) test_executable = JStr ''a''"
    by (simp_all add: cfg_get_def cfg_update_def effectiveValue_def unsetInspection_def)
  have d: "logicalOr (fst (getDefaultCwd exampleHost ?s1)) (JStr ''${absDirpath}'') = JStr ''/w''"
    by (simp add: getDefaultCwd_def getNewOrOldOrDefAndMigrate_def getNewOrOldAndMigrate_def
        legacySingleton_def withOld_def emptyState_def cfg_inspect_def cfg_get_def cfg_update_def
        exampleHost_def logicalOr_def)
  have r: "fst (getExecutables exampleHost legacySingleton)
     = Inr [createExecutableConfigFromPattern (JStr ''/w'') ''a'']"
    using getExecutables_fallback [OF m disjI1 [OF e]] unfolding x d by simp
  show ?thesis
    by (simp add: n r scopedValues_def cfg_inspect_def cfg_update_def unsetInspection_def)
qed

subsection \<open>Scope preservation\<close>

text \<open>
  Claim C2. For a migratable key whose legacy key is defined at some scope, resolution
  issues, in this order, the write of the legacy global value to the new key at Global
  scope, of the workspace value at Workspace scope and of the workspace-folder value at
  WorkspaceFolder scope (an undefined value is written as it is), then the three writes
  that clear the legacy key. When the store accepts them, the new key holds at each
  scope what the legacy key held at that scope, and the legacy key is undefined at all
  three scopes, whatever was pending or stored before.
\<close>

theorem migration_scope_preserving:
  assumes "cfg_inspect (cfg_old s) (MigrationV1V2NamePairs k) = Some ov"
    and "isDefinedConfig (Some ov)"
    and "\<forall>v t. \<not> rejects h (NewWrite (Migratable k) v t)"
    and "\<forall>t. \<not> rejects h (OldWrite (MigrationV1V2NamePairs k) JUndefined t)"
  shows "pending (snd (getNewOrOldAndMigrate k s)) =
           pending s @
           [(NewWrite (Migratable k) (globalValue ov) Global, True),
            (NewWrite (Migratable k) (workspaceValue ov) Workspace, True),
            (NewWrite (Migratable k) (workspaceFolderValue ov) WorkspaceFolder, True),
            (OldWrite (MigrationV1V2NamePairs k) JUndefined Global, True),
            (OldWrite (MigrationV1V2NamePairs k) JUndefined Workspace, True),
            (OldWrite (MigrationV1V2NamePairs k) JUndefined WorkspaceFolder, True)]
       \<and> scopedValues (cfg_inspect (cfg_new (settle h (snd (getNewOrOldAndMigrate k s)))) (Migratable k))
           = (globalValue ov, workspaceValue ov, workspaceFolderValue ov)
       \<and> scopedValues (cfg_inspect (cfg_old (settle h (snd (getNewOrOldAndMigrate k s))))
             (MigrationV1V2NamePairs k))
           = (JUndefined, JUndefined, JUndefined)"
proof -
  have r: "getNewOrOldAndMigrate k s = (effectiveValue ov, s\<lparr>pending := pending s @ migrationWrites k ov\<rparr>)"
    using assms(1,2) by (rule resolve_defined)
  have p: "pending (snd (getNewOrOldAndMigrate k s)) =
           pending s @
           [(NewWrite (Migratable k) (globalValue ov) Global, True),
            (NewWrite (Migratable k) (workspaceValue ov) Workspace, True),
            (NewWrite (Migratable k) (workspaceFolderValue ov) WorkspaceFolder, True),
            (OldWrite (MigrationV1V2NamePairs k) JUndefined Global, True),
            (OldWrite (MigrationV1V2NamePairs k) JUndefined Workspace, True),
            (OldWrite (MigrationV1V2NamePairs k) JUndefined WorkspaceFolder, True)]"
    by (simp add: r migrationWrites_def)
  have st: "settle h (snd (getNewOrOldAndMigrate k s))
      = foldl (applyWrite h) (settle h s) (migrationWrites k ov)"
    by (simp add: r settle_append)
  have sc: "scopedValues (cfg_inspect (cfg_new (settle h (snd (getNewOrOldAndMigrate k s)))) (Migratable k))
              = (globalValue ov, workspaceValue ov, workspaceFolderValue ov)
       \<and> scopedValues (cfg_inspect (cfg_old (settle h (snd (getNewOrOldAndMigrate k s))))
             (MigrationV1V2NamePairs k))
              = (JUndefined, JUndefined, JUndefined)"
    unfolding st by (rule scoped_after_writes [OF assms(3,4)])
  from p sc show ?thesis by (intro conjI) (rule p, rule conjunct1 [OF sc], rule conjunct2 [OF sc])
qed

text \<open>
  A value set only at the WorkspaceFolder scope of the legacy key ends up only at the
  WorkspaceFolder scope of the new key.
\<close>

theorem migration_scope_preserving_witness:
  "cfg_inspect (cfg_old (withOld workerMaxNumber (JNum (Fin 4)) WorkspaceFolder emptyState))
      (MigrationV1V2NamePairs test_parallelExecutionLimit)
     = Some (unsetInspection\<lparr>workspaceFolderValue := JNum (Fin 4)\<rparr>)
   \<and> isDefinedConfig (Some (unsetInspection\<lparr>workspaceFolderValue := JNum (Fin 4)\<rparr>))
   \<and> scopedValues (cfg_inspect (cfg_new (settle exampleHost (snd (getNewOrOldAndMigrate
          test_parallelExecutionLimit (withOld workerMaxNumber (JNum (Fin 4)) WorkspaceFolder emptyState)))))
          (Migratable test_parallelExecutionLimit))
     = (JUndefined, JUndefined, JNum (Fin 4))
   \<and> scopedValues (cfg_inspect (cfg_old (settle exampleHost (snd (getNewOrOldAndMigrate
          test_parallelExecutionLimit (withOld workerMaxNumber (JNum (Fin 4)) WorkspaceFolder emptyState)))))
          workerMaxNumber)
     = (JUndefined, JUndefined, JUndefined)"
proof -
  let ?s = "withOld workerMaxNumber (JNum (Fin 4)) WorkspaceFolder emptyState"
  let ?ov = "unsetInspection\<lparr>workspaceFolderValue := JNum (Fin 4)\<rparr>"
  have a: "cfg_inspect (cfg_old ?s) (MigrationV1V2NamePairs test_parallelExecutionLimit) = Some ?ov"
    by (simp add: withOld_def emptyState_def cfg_inspect_def cfg_update_def)
  have b: "isDefinedConfig (Some ?ov)"
    by (simp add: isDefinedConfig_def)
  have c: "\<forall>v t. \<not> rejects exampleHost (NewWrite (Migratable test_parallelExecutionLimit) v t)"
    by (simp add: exampleHost_def)
  have d: "\<forall>t. \<not> rejects exampleHost (OldWrite (MigrationV1V2NamePairs test_parallelExecutionLimit) JUndefined t)"
    by (simp add: exampleHost_def)
  show ?thesis
    using a b migration_scope_preserving [OF a b c d]
    by (simp add: unsetInspection_def)
qed

subsection \<open>Idempotence\<close>

text \<open>
  Claim C3, as amended. For a migratable key whose legacy key is defined, a second
  resolution returns the value the first one returned, whether it runs at once or after
  the writes of the first have reached the store. Once they have reached the store the
  legacy key is undefined at all three scopes, and the second resolution reads the new
  key and leaves the state as it is: it issues no write.
\<close>

theorem migration_idempotent_once_applied:
  assumes "cfg_inspect (cfg_old s) (MigrationV1V2NamePairs k) = Some ov"
    and "isDefinedConfig (Some ov)"
    and "\<forall>v t. \<not> rejects h (NewWrite (Migratable k) v t)"
    and "\<forall>t. \<not> rejects h (OldWrite (MigrationV1V2NamePairs k) JUndefined t)"
  shows "fst (getNewOrOldAndMigrate k (snd (getNewOrOldAndMigrate k s))) = fst (getNewOrOldAndMigrate k s)
       \<and> scopedValues (cfg_inspect (cfg_old (settle h (snd (getNewOrOldAndMigrate k s))))
             (MigrationV1V2NamePairs k))
           = (JUndefined, JUndefined, JUndefined)
       \<and> getNewOrOldAndMigrate k (settle h (snd (getNewOrOldAndMigrate k s)))
           = (fst (getNewOrOldAndMigrate k s), settle h (snd (getNewOrOldAndMigrate k s)))"
proof -
  let ?s1 = "snd (getNewOrOldAndMigrate k s)"
  let ?s2 = "settle h ?s1"
  have r: "getNewOrOldAndMigrate k s = (effectiveValue ov, s\<lparr>pending := pending s @ migrationWrites k ov\<rparr>)"
    using assms(1,2) by (rule resolve_defined)
  have st: "?s2 = foldl (applyWrite h) (settle h s) (migrationWrites k ov)"
    by (simp add: r settle_append)
  have sc: "scopedValues (cfg_inspect (cfg_new ?s2) (Migratable k))
              = (globalValue ov, workspaceValue ov, workspaceFolderValue ov)"
       "scopedValues (cfg_inspect (cfg_old ?s2) (MigrationV1V2NamePairs k))
              = (JUndefined, JUndefined, JUndefined)"
    using scoped_after_writes [OF assms(3,4), of "settle h s" ov] by (simp_all add: st)
  have again: "fst (getNewOrOldAndMigrate k ?s1) = effectiveValue ov"
  proof -
    have "cfg_inspect (cfg_old ?s1) (MigrationV1V2NamePairs k) = Some ov"
      using assms(1) by (simp add: resolve_stores)
    from resolve_defined [OF this assms(2)] show ?thesis by simp
  qed
  have undef: "\<not> isDefinedConfig (cfg_inspect (cfg_old ?s2) (MigrationV1V2NamePairs k))"
    using sc(2) by (auto simp: scopedValues_def isDefinedConfig_def split: option.splits)
  have newval: "cfg_get (cfg_new ?s2) (Migratable k) = effectiveValue ov"
  proof (cases "cfg_new ?s2 (Migratable k)")
    case None
    with sc(1) assms(2) show ?thesis
      by (simp add: scopedValues_def cfg_inspect_def isDefinedConfig_def)
  next
    case (Some i)
    with sc(1) have "scopedValues (Some i) = scopedValues (Some ov)"
      by (simp add: scopedValues_def cfg_inspect_def)
    from effectiveValue_scoped [OF this assms(2)] Some show ?thesis
      by (simp add: cfg_get_def)
  qed
  show ?thesis
    using again sc(2) resolve_undefined [OF undef] newval by (simp add: r)
qed

theorem migration_idempotent_once_applied_witness:
  "cfg_inspect (cfg_old (withOld workerMaxNumber (JNum (Fin 4)) Global emptyState))
      (MigrationV1V2NamePairs test_parallelExecutionLimit)
     = Some (unsetInspection\<lparr>globalValue := JNum (Fin 4)\<rparr>)
   \<and> isDefinedConfig (Some (unsetInspection\<lparr>globalValue := JNum (Fin 4)\<rparr>))
   \<and> fst (getNewOrOldAndMigrate test_parallelExecutionLimit
            (withOld workerMaxNumber (JNum (Fin 4)) Global emptyState)) = JNum (Fin 4)
   \<and> fst (getNewOrOldAndMigrate test_parallelExecutionLimit (settle exampleHost (snd
            (getNewOrOldAndMigrate test_parallelExecutionLimit
               (withOld workerMaxNumber (JNum (Fin 4)) Global emptyState))))) = JNum (Fin 4)"
proof -
  let ?s = "withOld workerMaxNumber (JNum (Fin 4)) Global emptyState"
  let ?ov = "unsetInspection\<lparr>globalValue := JNum (Fin 4)\<rparr>"
  have a: "cfg_inspect (cfg_old ?s) (MigrationV1V2NamePairs test_parallelExecutionLimit) = Some ?ov"
    by (simp add: withOld_def emptyState_def cfg_inspect_def cfg_update_def)
  have b: "isDefinedConfig (Some ?ov)"
    by (simp add: isDefinedConfig_def)
  have c: "\<forall>v t. \<not> rejects exampleHost (NewWrite (Migratable test_parallelExecutionLimit) v t)"
    by (simp add: exampleHost_def)
  have d: "\<forall>t. \<not> rejects exampleHost (OldWrite (MigrationV1V2NamePairs test_parallelExecutionLimit) JUndefined t)"
    by (simp add: exampleHost_def)
  have e: "fst (getNewOrOldAndMigrate test_parallelExecutionLimit ?s) = JNum (Fin 4)"
    using resolve_defined [OF a b] by (simp add: effectiveValue_def unsetInspection_def)
  show ?thesis
    using a b e migration_idempotent_once_applied [OF a b c d]
    by simp
qed

text \<open>
  The writes are asynchronous: when the first resolution returns its six writes are
  pending, the legacy key is still defined, and a second resolution at that moment
  issues six more.
\<close>

theorem second_call_before_settling_counterexample:
  "scopedValues (cfg_inspect (cfg_old (snd (getNewOrOldAndMigrate test_parallelExecutionLimit
       (withOld workerMaxNumber (JNum (Fin 4)) Global emptyState)))) workerMaxNumber)
     = (JNum (Fin 4), JUndefined, JUndefined)
   \<and> pending (withOld workerMaxNumber (JNum (Fin 4)) Global emptyState) = []
   \<and> length (pending (snd (getNewOrOldAndMigrate test_parallelExecutionLimit
        (withOld workerMaxNumber (JNum (Fin 4)) Global emptyState)))) = 6
   \<and> length (pending (snd (getNewOrOldAndMigrate test_parallelExecutionLimit
        (snd (getNewOrOldAndMigrate test_parallelExecutionLimit
          (withOld workerMaxNumber (JNum (Fin 4)) Global emptyState)))))) = 12"
  by (simp add: getNewOrOldAndMigrate_def Let_def issue_def withOld_def emptyState_def
      cfg_inspect_def cfg_update_def cfg_get_def isDefinedConfig_def unsetInspection_def
      scopedValues_def)

subsection \<open>The pattern of an executable\<close>

text \<open>
  Claim C4, as amended. Every config that \<open>getExecutables\<close> returns has a string
  pattern that comes from the settings: in the fallback to \<open>test.executable\<close> it is
  never empty; for an element of \<open>test.executables\<close> it is the element itself, when
  the element is a string, or the element's \<open>pattern\<close> field, and either may be the
  empty string. An object among the elements that has no string \<open>pattern\<close> makes
  \<open>getExecutables\<close> throw instead of inventing a pattern: the error is
  \<open>pattern property is required.\<close> when no element before it is \<open>null\<close> or has a
  \<open>null\<close> framework block.
\<close>

theorem executables_patterns:
  assumes "migrateExecutables h s = (None, s1)"
  shows "(\<forall>cfgs. fst (getExecutables h s) = Inr cfgs \<longrightarrow>
            (if cfg_get (cfg_new s1) (Migratable test_executables) = JUndefined
                \<or> cfg_get (cfg_new s1) (Migratable test_executables) = JArr []
             then \<forall>c\<in>set cfgs. ec_pattern c \<noteq> []
             else \<exists>confs. cfg_get (cfg_new s1) (Migratable test_executables) = JArr confs
                    \<and> list_all2 (\<lambda>conf c. conf = JStr (ec_pattern c)
                                    \<or> propOf conf ''pattern'' = JStr (ec_pattern c)) confs cfgs))
       \<and> (\<forall>pre kvs post.
            cfg_get (cfg_new s1) (Migratable test_executables) = JArr (pre @ JObj kvs # post)
            \<and> (\<forall>p. propOf (JObj kvs) ''pattern'' \<noteq> JStr p) \<longrightarrow>
              (\<exists>e. fst (getExecutables h s) = Inl e)
              \<and> ((\<forall>x\<in>set pre. raisesNoTypeError x) \<longrightarrow>
                   fst (getExecutables h s) = Inl (Error ''pattern property is required.'')))"
proof (intro conjI allI impI)
  fix cfgs
  assume r: "fst (getExecutables h s) = Inr cfgs"
  let ?v = "cfg_get (cfg_new s1) (Migratable test_executables)"
  show "if ?v = JUndefined \<or> ?v = JArr []
        then \<forall>c\<in>set cfgs. ec_pattern c \<noteq> []
        else \<exists>confs. ?v = JArr confs
               \<and> list_all2 (\<lambda>conf c. conf = JStr (ec_pattern c)
                               \<or> propOf conf ''pattern'' = JStr (ec_pattern c)) confs cfgs"
  proof (cases "?v = JUndefined \<or> ?v = JArr []")
    case True
    with getExecutables_fallback_patterns [OF assms True r] show ?thesis by simp
  next
    case False
    have "isArray ?v"
      using getExecutables_not_array [OF assms] False r by auto
    then obtain confs where c: "?v = JArr confs" by (cases ?v) auto
    with False have ne: "confs \<noteq> []" by simp
    have "list_all2 (\<lambda>conf c. conf = JStr (ec_pattern c)
                        \<or> propOf conf ''pattern'' = JStr (ec_pattern c)) confs cfgs"
      using getExecutables_elements [OF assms c ne r]
      by (rule list_all2_mono) (simp add: elementConfig_fields)
    with False c show ?thesis by simp
  qed
next
  fix pre kvs post
  assume a: "cfg_get (cfg_new s1) (Migratable test_executables) = JArr (pre @ JObj kvs # post)
             \<and> (\<forall>p. propOf (JObj kvs) ''pattern'' \<noteq> JStr p)"
  have e: "fst (getExecutables h s) =
     fst (collectExecutables (logicalOr (fst (getDefaultCwd h s1)) (JStr ''${absDirpath}''))
            (pre @ JObj kvs # post) (snd (getDefaultCwd h s1)))"
    using a by (intro getExecutables_array [OF assms]) simp_all
  show "\<exists>e. fst (getExecutables h s) = Inl e"
    unfolding e using a by (intro collectExecutables_missing_pattern) simp
  assume "\<forall>x\<in>set pre. raisesNoTypeError x"
  then show "fst (getExecutables h s) = Inl (Error ''pattern property is required.'')"
    unfolding e using a collectExecutables_pattern_error [of kvs pre] by (simp add: patternRequired_def)
qed

theorem executables_patterns_witness:
  "fst (getExecutables exampleHost (withNew (Migratable test_executables)
      (JArr [JStr ''foo/*test*'']) Global emptyState))
     = Inr [createExecutableConfigFromPattern (JStr ''/w'') ''foo/*test*'']
   \<and> ec_pattern (createExecutableConfigFromPattern (JStr ''/w'') ''foo/*test*'') = ''foo/*test*''
   \<and> fst (getExecutables exampleHost (withNew (Migratable test_executables)
      (JArr [JObj [(''name'', JStr ''x'')]]) Global emptyState))
     = Inl (Error ''pattern property is required.'')"
proof -
  have a: "list_all2 (\<lambda>conf c. conf = JStr (ec_pattern c) \<or> propOf conf ''pattern'' = JStr (ec_pattern c))
             [JStr ''foo/*test*''] [createExecutableConfigFromPattern (JStr ''/w'') ''foo/*test*'']"
    using executables_patterns [OF example_migrate, of "Migratable test_executables" "JArr [JStr ''foo/*test*'']"]
      example_string_eval
    by (simp add: example_executables)
  have b: "fst (getExecutables exampleHost (withNew (Migratable test_executables)
      (JArr [JObj [(''name'', JStr ''x'')]]) Global emptyState))
     = Inl (Error ''pattern property is required.'')"
    using executables_patterns [OF example_migrate, of "Migratable test_executables"
        "JArr [JObj [(''name'', JStr ''x'')]]", THEN conjunct2, THEN spec, THEN spec, THEN spec,
        of "[]" "[(''name'', JStr ''x'')]" "[]"]
    by (simp add: example_executables propOf_def)
  from a b example_string_eval show ?thesis
    by (simp add: propOf_def)
qed

text \<open>
  The element \<open>{pattern: ''}\<close> gives a config whose pattern is the empty string.
\<close>

theorem empty_pattern_counterexample:
  "fst (getExecutables exampleHost (withNew (Migratable test_executables)
      (JArr [JObj [(''pattern'', JStr [])]]) Global emptyState))
     = Inr [createExecutableConfigFromPattern (JStr ''/w'') []]
   \<and> ec_pattern (createExecutableConfigFromPattern (JStr ''/w'') []) = []"
  by (simp add: example_collect element_eval)

subsection \<open>The fallback to the simple pattern\<close>



subsection \<open>The parallelization limit of an executable\<close>

text \<open>
  Claim C6, as amended. For every element of \<open>test.executables\<close> the normalized
  config's \<open>parallelizationLimit\<close> is the element's own field when that field is a
  number, whatever number it is, and 1 when the field is absent or not a number. No
  check makes it an integer or at least 1.
\<close>

theorem parallelizationLimit_of_elements:
  assumes "migrateExecutables h s = (None, s1)"
    and "cfg_get (cfg_new s1) (Migratable test_executables) = JArr confs"
    and "confs \<noteq> []"
    and "fst (getExecutables h s) = Inr cfgs"
  shows "list_all2
           (\<lambda>conf c. ec_parallelizationLimit c =
                        (case propOf conf ''parallelizationLimit'' of JNum n \<Rightarrow> n | _ \<Rightarrow> Fin 1))
           confs cfgs"
  using getExecutables_elements [OF assms]
  by (rule list_all2_mono) (simp add: elementConfig_fields)

theorem parallelizationLimit_of_elements_witness:
  "fst (getExecutables exampleHost (withNew (Migratable test_executables)
      (JArr [JObj [(''pattern'', JStr ''a'')],
             JObj [(''pattern'', JStr ''b''), (''parallelizationLimit'', JNum (Fin 2))]]) Global emptyState))
     = Inr [createExecutableConfigFromPattern (JStr ''/w'') ''a'',
            (createExecutableConfigFromPattern (JStr ''/w'') ''b'')\<lparr>ec_parallelizationLimit := Fin 2\<rparr>]
   \<and> ec_parallelizationLimit (createExecutableConfigFromPattern (JStr ''/w'') ''a'') = Fin 1
   \<and> ec_parallelizationLimit
        ((createExecutableConfigFromPattern (JStr ''/w'') ''b'')\<lparr>ec_parallelizationLimit := Fin 2\<rparr>) = Fin 2"
  using parallelizationLimit_of_elements [OF example_migrate example_executables _ example_limit_eval]
    example_limit_eval
  by (simp add: propOf_def)

text \<open>
  An executable object with \<open>parallelizationLimit: 0\<close> gives a config whose limit is 0.
\<close>

theorem zero_parallelizationLimit_counterexample:
  "fst (getExecutables exampleHost (withNew (Migratable test_executables)
      (JArr [JObj [(''pattern'', JStr ''a''), (''parallelizationLimit'', JNum (Fin 0))]]) Global emptyState))
     = Inr [(createExecutableConfigFromPattern (JStr ''/w'') ''a'')\<lparr>ec_parallelizationLimit := Fin 0\<rparr>]"
  by (simp add: example_collect element_eval)

subsection \<open>The parallel execution limit\<close>

text \<open>
  Claim C7, evaluated on the code. A resolved value of 0 gives 1 and a resolved value
  of 4 gives 4, but the non-numeric value \<open>abc\<close> gives NaN and not 1:
  \<open>Math.max(1, v)\<close> has already turned the value into a number when its \<open>typeof\<close> is
  tested, so the branch that would return 1 is never taken.
\<close>

theorem parallelExecutionLimit_evaluation:
  "fst (getParallelExecutionLimit exampleHost
        (withNew (Migratable test_parallelExecutionLimit) (JNum (Fin 0)) Global emptyState)) = JNum (Fin 1)
   \<and> fst (getParallelExecutionLimit exampleHost
        (withNew (Migratable test_parallelExecutionLimit) (JNum (Fin 4)) Global emptyState)) = JNum (Fin 4)
   \<and> fst (getParallelExecutionLimit exampleHost
        (withNew (Migratable test_parallelExecutionLimit) (JStr ''abc'') Global emptyState)) = JNum NaN"
  by (simp add: getParallelExecutionLimit_value example_resolveOrDef_new StringToNumber_examples)

subsection \<open>The random generator seed\<close>

text \<open>
  Claim C8. \<open>getRandomGeneratorSeed\<close> maps the resolved setting as follows: when it is
  unset the default \<open>time\<close> is returned; \<open>time\<close> is returned as it is; the empty
  string gives \<open>null\<close>; the string \<open>42\<close> gives the number 42; the string \<open>abc\<close>
  gives \<open>null\<close>; and any other string gives the number it denotes, or \<open>null\<close> when
  it denotes none.
\<close>

theorem randomGeneratorSeed_cases:
  assumes "fst (getNewOrOldAndMigrate test_randomGeneratorSeed s) = v"
  shows "(v = JUndefined \<longrightarrow> fst (getRandomGeneratorSeed h s) = JStr ''time'')
       \<and> (v = JStr ''time'' \<longrightarrow> fst (getRandomGeneratorSeed h s) = JStr ''time'')
       \<and> (v = JStr [] \<longrightarrow> fst (getRandomGeneratorSeed h s) = JNull)
       \<and> (v = JStr ''42'' \<longrightarrow> fst (getRandomGeneratorSeed h s) = JNum (Fin 42))
       \<and> (v = JStr ''abc'' \<longrightarrow> fst (getRandomGeneratorSeed h s) = JNull)
       \<and> (\<forall>t. v = JStr t \<and> t \<noteq> ''time'' \<and> t \<noteq> [] \<longrightarrow>
             fst (getRandomGeneratorSeed h s) =
               (if StringToNumber t = NaN then JNull else JNum (StringToNumber t)))"
  using assms
  by (auto simp: getRandomGeneratorSeed_resolved Let_def StringToNumber_examples)

theorem randomGeneratorSeed_cases_witness:
  "fst (getRandomGeneratorSeed exampleHost emptyState) = JStr ''time''
   \<and> fst (getRandomGeneratorSeed exampleHost
        (withNew (Migratable test_randomGeneratorSeed) (JStr ''time'') Global emptyState)) = JStr ''time''
   \<and> fst (getRandomGeneratorSeed exampleHost
        (withNew (Migratable test_randomGeneratorSeed) (JStr []) Global emptyState)) = JNull
   \<and> fst (getRandomGeneratorSeed exampleHost
        (withNew (Migratable test_randomGeneratorSeed) (JStr ''42'') Global emptyState)) = JNum (Fin 42)
   \<and> fst (getRandomGeneratorSeed exampleHost
        (withNew (Migratable test_randomGeneratorSeed) (JStr ''abc'') Global emptyState)) = JNull"
  using randomGeneratorSeed_cases [OF example_resolve_unset, where h = exampleHost]
    randomGeneratorSeed_cases [OF example_resolve_new, where v = "JStr ''time''" and h = exampleHost]
    randomGeneratorSeed_cases [OF example_resolve_new, where v = "JStr []" and h = exampleHost]
    randomGeneratorSeed_cases [OF example_resolve_new, where v = "JStr ''42''" and h = exampleHost]
    randomGeneratorSeed_cases [OF example_resolve_new, where v = "JStr ''abc''" and h = exampleHost]
  by simp

subsection \<open>When no template can be found\<close>




subsection \<open>The environment of an executable\<close>

text \<open>
  Claim C10. The field \<open>env\<close> of an executable object is kept whenever its
  \<open>typeof\<close> is \<open>object\<close>, which \<open>null\<close> and arrays satisfy: such a value reaches
  the config's \<open>env\<close>, whereas a \<open>name\<close>, \<open>description\<close> or \<open>cwd\<close> that is not a
  string is dropped.
\<close>

theorem env_of_elements:
  assumes "migrateExecutables h s = (None, s1)"
    and "cfg_get (cfg_new s1) (Migratable test_executables) = JArr confs"
    and "confs \<noteq> []"
    and "fst (getExecutables h s) = Inr cfgs"
  shows "list_all2
           (\<lambda>conf c.
              (propOf conf ''env'' = JNull \<or> isArray (propOf conf ''env'')
                 \<longrightarrow> ec_env c = propOf conf ''env'')
              \<and> (typeof (propOf conf ''name'') \<noteq> TString \<longrightarrow> ec_name c = None)
              \<and> (typeof (propOf conf ''description'') \<noteq> TString \<longrightarrow> ec_description c = None)
              \<and> (typeof (propOf conf ''cwd'') \<noteq> TString \<longrightarrow> ec_cwd c = None))
           confs cfgs"
proof -
  have a: "typeof v = TObject" if "v = JNull \<or> isArray v" for v
    using that by (cases v) auto
  have b: "stringOrUndefined v = None" if "typeof v \<noteq> TString" for v
    using that by (cases v) auto
  show ?thesis
    using getExecutables_elements [OF assms]
    by (rule list_all2_mono) (simp add: elementConfig_fields a b)
qed

theorem env_of_elements_witness:
  "fst (getExecutables exampleHost (withNew (Migratable test_executables)
      (JArr [JObj [(''pattern'', JStr ''a''), (''env'', JNull), (''name'', JNull)],
             JObj [(''pattern'', JStr ''b''), (''env'', JArr [JStr ''x'']), (''cwd'', JNum (Fin 1))]])
      Global emptyState))
     = Inr [(createExecutableConfigFromPattern (JStr ''/w'') ''a'')\<lparr>ec_env := JNull\<rparr>,
            (createExecutableConfigFromPattern (JStr ''/w'') ''b'')\<lparr>ec_env := JArr [JStr ''x'']\<rparr>]
   \<and> ec_env ((createExecutableConfigFromPattern (JStr ''/w'') ''a'')\<lparr>ec_env := JNull\<rparr>) = JNull
   \<and> ec_name ((createExecutableConfigFromPattern (JStr ''/w'') ''a'')\<lparr>ec_env := JNull\<rparr>) = None
   \<and> ec_env ((createExecutableConfigFromPattern (JStr ''/w'') ''b'')\<lparr>ec_env := JArr [JStr ''x'']\<rparr>)
        = JArr [JStr ''x'']
   \<and> ec_cwd ((createExecutableConfigFromPattern (JStr ''/w'') ''b'')\<lparr>ec_env := JArr [JStr ''x'']\<rparr>) = None"
  using env_of_elements [OF example_migrate example_executables _ example_env_eval]
    example_env_eval
  by (simp add: propOf_def)

end
